theory Spec2Isabelle
  imports Complex_Main "HOL-Library.Word"
begin

unbundle bit_operations_syntax

section \<open>JavaScript values used by the stores\<close>

text \<open>
  A slot of a \<^verbatim>\<open>boolean[]\<close> holds \<^verbatim>\<open>true\<close>, \<^verbatim>\<open>false\<close> or, when it was filled from a
  read past the end of another array, \<^verbatim>\<open>undefined\<close>.  \<open>None\<close> is \<^verbatim>\<open>undefined\<close>.
\<close>

type_synonym jsbool = "bool option"

definition truthy :: "jsbool \<Rightarrow> bool" where
  "truthy v = (v = Some True)"

text \<open>Reading \<^verbatim>\<open>xs[i]\<close>: outside the array the value is \<^verbatim>\<open>undefined\<close>, nothing is thrown.\<close>

definition arr_get :: "jsbool list \<Rightarrow> int \<Rightarrow> jsbool" where
  "arr_get xs i = (if 0 \<le> i \<and> i < int (length xs) then xs ! nat i else None)"

text \<open>The remainder operator \<^verbatim>\<open>%\<close> truncates towards zero and takes the sign of the dividend.\<close>

definition js_rem :: "int \<Rightarrow> int \<Rightarrow> int" where
  "js_rem a b = sgn a * (\<bar>a\<bar> mod \<bar>b\<bar>)"

text \<open>
  Numbers that the stores derive by division: an integer, or one of the non-finite
  doubles that a division by zero produces.  All finite quantities of the stores are
  integers far below \<open>2 ^ 53\<close>, where double arithmetic is exact.
\<close>

datatype jsnum = JInt int | JInf | JNegInf | JNaN

text \<open>\<^verbatim>\<open>Math.floor(a / b)\<close> for integers \<open>a\<close> and \<open>b\<close>.\<close>

definition js_floor_div :: "int \<Rightarrow> int \<Rightarrow> jsnum" where
  "js_floor_div a b =
     (if b = 0 then (if a > 0 then JInf else if a < 0 then JNegInf else JNaN)
      else JInt (a div b))"

text \<open>\<^verbatim>\<open>x * k\<close> and \<^verbatim>\<open>Math.floor((a - x) / 2)\<close> for an integer \<open>k\<close>, as \<^verbatim>\<open>calculateCanvasMetrics\<close> uses them.\<close>

definition js_mul_int :: "jsnum \<Rightarrow> int \<Rightarrow> jsnum" where
  "js_mul_int x k =
     (case x of
        JInt n \<Rightarrow> JInt (n * k)
      | JInf \<Rightarrow> (if k > 0 then JInf else if k < 0 then JNegInf else JNaN)
      | JNegInf \<Rightarrow> (if k > 0 then JNegInf else if k < 0 then JInf else JNaN)
      | JNaN \<Rightarrow> JNaN)"

definition js_half_diff :: "int \<Rightarrow> jsnum \<Rightarrow> jsnum" where
  "js_half_diff a x =
     (case x of
        JInt n \<Rightarrow> JInt ((a - n) div 2)
      | JInf \<Rightarrow> JNegInf
      | JNegInf \<Rightarrow> JInf
      | JNaN \<Rightarrow> JNaN)"

text \<open>\<^verbatim>\<open>n >= x\<close> and \<^verbatim>\<open>n > x\<close> for an array length \<open>n\<close>; every comparison with NaN is false.\<close>

definition js_ge :: "nat \<Rightarrow> jsnum \<Rightarrow> bool" where
  "js_ge n x = (case x of JInt m \<Rightarrow> int n \<ge> m | JInf \<Rightarrow> False | JNegInf \<Rightarrow> True | JNaN \<Rightarrow> False)"

definition js_gt :: "nat \<Rightarrow> jsnum \<Rightarrow> bool" where
  "js_gt n x = (case x of JInt m \<Rightarrow> int n > m | JInf \<Rightarrow> False | JNegInf \<Rightarrow> True | JNaN \<Rightarrow> False)"

section \<open>The automaton store (\<^verbatim>\<open>useStore\<close>)\<close>

datatype pattern = Single | Random | Filled | Empty | Alternating

text \<open>
  The object that \<^verbatim>\<open>calculateCanvasMetrics\<close> returns.  The store spreads it into its own
  state (\<^verbatim>\<open>...metrics\<close>), so the state record extends it.
\<close>

record CanvasMetrics =
  availableWidth :: int
  maxCells :: jsnum
  renderWidth :: jsnum
  renderMargin :: jsnum
  maxVisibleGenerations :: jsnum

record AutomatonState = CanvasMetrics +
  cells :: "jsbool list"
  previousGenerations :: "jsbool list list"
  rule :: int
  ruleToggles :: "jsbool list"
  isPlaying :: bool
  generation :: int
  cellSize :: int
  cellMargin :: int
  speed :: int
  lastInitPattern :: pattern

subsection \<open>\<^verbatim>\<open>step\<close>\<close>

text \<open>
  The index \<^verbatim>\<open>idx\<close> that the loop body of \<^verbatim>\<open>step\<close> computes for position \<open>i\<close>:
  \<^verbatim>\<open>(left ? 4 : 0) + (center ? 2 : 0) + (right ? 1 : 0)\<close> with the three reads wrapped
  by \<^verbatim>\<open>%\<close>.
\<close>

definition step_idx :: "jsbool list \<Rightarrow> nat \<Rightarrow> int" where
  "step_idx cs i =
     (let n = int (length cs);
          left = arr_get cs (js_rem (int i - 1 + n) n);
          center = arr_get cs (int i);
          right = arr_get cs (js_rem (int i + 1) n)
      in (if truthy left then 4 else 0) + (if truthy center then 2 else 0)
         + (if truthy right then 1 else 0))"

text \<open>
  The loop of \<^verbatim>\<open>step\<close>: \<^verbatim>\<open>nextCells\<close> starts as \<^verbatim>\<open>new Array(cells.length).fill(false)\<close>
  and slot \<open>i\<close> is overwritten with \<^verbatim>\<open>ruleToggles[7 - idx]\<close> for \<open>i\<close> from 0 upwards.
\<close>

definition step_nextCells :: "jsbool list \<Rightarrow> jsbool list \<Rightarrow> jsbool list" where
  "step_nextCells cs toggles =
     foldl (\<lambda>nextCells i. nextCells[i := arr_get toggles (7 - step_idx cs i)])
       (replicate (length cs) (Some False)) [0..<length cs]"

text \<open>
  \<^verbatim>\<open>step\<close> of \<^verbatim>\<open>useStore\<close> (both copies of that store are the same here): the history
  drops its first entry when it already holds \<^verbatim>\<open>maxVisibleGenerations\<close> entries or more
  (\<^verbatim>\<open>shift\<close> on an empty array does nothing), then the old cells are pushed.
\<close>

definition step :: "AutomatonState \<Rightarrow> AutomatonState" where
  "step s =
     (let nextCells = step_nextCells (cells s) (ruleToggles s);
          newPreviousGenerations = previousGenerations s;
          shifted = (if js_ge (length newPreviousGenerations) (maxVisibleGenerations s)
                     then tl newPreviousGenerations else newPreviousGenerations)
      in s\<lparr>cells := nextCells,
           previousGenerations := shifted @ [cells s],
           generation := generation s + 1\<rparr>)"

text \<open>
  \<^verbatim>\<open>incrementGeneration\<close>: push the cells, then drop the first entry when the length
  exceeds \<^verbatim>\<open>maxVisibleGenerations\<close>.
\<close>

definition incrementGeneration :: "AutomatonState \<Rightarrow> AutomatonState" where
  "incrementGeneration s =
     (let newPreviousGenerations = previousGenerations s @ [cells s];
          shifted = (if js_gt (length newPreviousGenerations) (maxVisibleGenerations s)
                     then tl newPreviousGenerations else newPreviousGenerations)
      in s\<lparr>previousGenerations := shifted, generation := generation s + 1\<rparr>)"

subsection \<open>\<^verbatim>\<open>setPresetRule\<close> and the initial rule toggles\<close>

text \<open>
  The bitwise operators convert their operands to 32-bit integers; \<^verbatim>\<open>>>\<close> is the
  arithmetic shift.  \<^verbatim>\<open>toggles[7 - i] = ((ruleNumber >> i) & 1) === 1\<close> for \<open>i\<close> from 0 to 7.
\<close>

definition to_int32 :: "int \<Rightarrow> 32 word" where
  "to_int32 n = word_of_int n"

definition preset_toggles :: "int \<Rightarrow> jsbool list" where
  "preset_toggles ruleNumber =
     foldl (\<lambda>toggles i. toggles[7 - i := Some ((signed_drop_bit i (to_int32 ruleNumber) AND 1) = 1)])
       (replicate 8 (Some False)) [0..<8]"

definition setPresetRule :: "int \<Rightarrow> AutomatonState \<Rightarrow> AutomatonState" where
  "setPresetRule ruleNumber s = s\<lparr>rule := ruleNumber, ruleToggles := preset_toggles ruleNumber\<rparr>"

text \<open>
  The simulation store writes the same loop with a mask:
  \<^verbatim>\<open>toggles[7 - i] = Boolean(ruleNumber & (1 << i))\<close>.
\<close>

definition sim_preset_toggles :: "int \<Rightarrow> jsbool list" where
  "sim_preset_toggles ruleNumber =
     foldl (\<lambda>toggles i. toggles[7 - i := Some ((to_int32 ruleNumber AND push_bit i 1) \<noteq> 0)])
       (replicate 8 (Some False)) [0..<8]"

text \<open>
  The store with the renderer switch builds its initial \<^verbatim>\<open>ruleToggles\<close> in place, from
  \<^verbatim>\<open>DEFAULT_RULE = 110\<close>: \<^verbatim>\<open>toggles[i] = Boolean(DEFAULT_RULE & (1 << i))\<close>.
\<close>

definition DEFAULT_RULE :: int where
  "DEFAULT_RULE = 110"

definition initial_ruleToggles :: "jsbool list" where
  "initial_ruleToggles =
     foldl (\<lambda>toggles i. toggles[i := Some ((to_int32 DEFAULT_RULE AND push_bit i 1) \<noteq> 0)])
       (replicate 8 (Some False)) [0..<8]"

subsection \<open>Viewport metrics and the resets they drive\<close>

definition SIDEBAR_WIDTH :: int where
  "SIDEBAR_WIDTH = 300"

text \<open>
  \<^verbatim>\<open>calculateCanvasMetrics\<close> of \<^verbatim>\<open>useStore\<close>.  It reads \<^verbatim>\<open>window.innerHeight\<close>, which is
  the first argument here.
\<close>

definition calculateCanvasMetrics :: "int \<Rightarrow> int \<Rightarrow> int \<Rightarrow> int \<Rightarrow> CanvasMetrics" where
  "calculateCanvasMetrics innerHeight windowWidth cSize cMargin =
     (let aw = windowWidth - SIDEBAR_WIDTH;
          mc = js_floor_div aw (cSize + cMargin);
          rw = js_mul_int mc (cSize + cMargin);
          rm = js_half_diff aw rw;
          mvg = js_floor_div innerHeight (cSize + cMargin)
      in \<lparr>availableWidth = aw, maxCells = mc, renderWidth = rw, renderMargin = rm,
          maxVisibleGenerations = mvg\<rparr>)"

text \<open>
  \<^verbatim>\<open>calculateCanvasMetrics\<close> of \<^verbatim>\<open>useRenderStore\<close>: the same, except for the last line,
  \<^verbatim>\<open>Math.floor((window.innerHeight - 100) / cellSize)\<close>.
\<close>

definition render_calculateCanvasMetrics :: "int \<Rightarrow> int \<Rightarrow> int \<Rightarrow> int \<Rightarrow> CanvasMetrics" where
  "render_calculateCanvasMetrics innerHeight windowWidth cSize cMargin =
     (let aw = windowWidth - SIDEBAR_WIDTH;
          mc = js_floor_div aw (cSize + cMargin);
          rw = js_mul_int mc (cSize + cMargin);
          rm = js_half_diff aw rw;
          mvg = js_floor_div (innerHeight - 100) cSize
      in \<lparr>availableWidth = aw, maxCells = mc, renderWidth = rw, renderMargin = rm,
          maxVisibleGenerations = mvg\<rparr>)"

datatype js_error = RangeError | Error string

text \<open>
  \<^verbatim>\<open>new Array(n).fill(false)\<close>: a \<^verbatim>\<open>RangeError\<close> unless \<open>n\<close> is an integer from 0 to
  \<open>2 ^ 32 - 1\<close>.
\<close>

definition new_array_false :: "jsnum \<Rightarrow> js_error + jsbool list" where
  "new_array_false n =
     (case n of
        JInt k \<Rightarrow> (if 0 \<le> k \<and> k < 2 ^ 32 then Inr (replicate (nat k) (Some False))
                   else Inl RangeError)
      | JInf \<Rightarrow> Inl RangeError
      | JNegInf \<Rightarrow> Inl RangeError
      | JNaN \<Rightarrow> Inl RangeError)"

text \<open>
  The copy loop shared by \<^verbatim>\<open>updateCanvasSize\<close>, \<^verbatim>\<open>setCellSize\<close> and \<^verbatim>\<open>setCellMargin\<close>:
  \<^verbatim>\<open>offset = Math.floor((maxCells - cells.length) / 2)\<close>, and cell \<open>i\<close> goes to slot
  \<open>i + offset\<close> when that slot exists.  It runs only after the array of \<open>k\<close> slots was
  built, so \<open>k\<close> is an integer.
\<close>

definition recenter :: "int \<Rightarrow> jsbool list \<Rightarrow> jsbool list \<Rightarrow> jsbool list" where
  "recenter k cs newCells =
     (let offset = (k - int (length cs)) div 2
      in foldl (\<lambda>nc i. if int i + offset \<ge> 0 \<and> int i + offset < k
                         then nc[nat (int i + offset) := cs ! i] else nc)
           newCells [0..<length cs])"

definition jsnum_int :: "jsnum \<Rightarrow> int" where
  "jsnum_int x = (case x of JInt k \<Rightarrow> k | JInf \<Rightarrow> 0 | JNegInf \<Rightarrow> 0 | JNaN \<Rightarrow> 0)"

text \<open>\<^verbatim>\<open>set({ cells: newCells, ...metrics })\<close>.\<close>

definition set_cells_metrics :: "jsbool list \<Rightarrow> CanvasMetrics \<Rightarrow> AutomatonState \<Rightarrow> AutomatonState" where
  "set_cells_metrics newCells m s =
     s\<lparr>cells := newCells,
       availableWidth := availableWidth m, maxCells := maxCells m,
       renderWidth := renderWidth m, renderMargin := renderMargin m,
       maxVisibleGenerations := maxVisibleGenerations m\<rparr>"

text \<open>
  The three viewport actions.  \<^verbatim>\<open>window.innerHeight\<close> and, for the two setters,
  \<^verbatim>\<open>window.innerWidth\<close> are arguments.  The array is built before anything is stored, so a
  \<^verbatim>\<open>RangeError\<close> leaves the state as it was.
\<close>

definition updateCanvasSize :: "int \<Rightarrow> int \<Rightarrow> AutomatonState \<Rightarrow> js_error + AutomatonState" where
  "updateCanvasSize innerHeight windowWidth s =
     (let metrics = calculateCanvasMetrics innerHeight windowWidth (cellSize s) (cellMargin s)
      in case new_array_false (maxCells metrics) of
           Inl e \<Rightarrow> Inl e
         | Inr newCells \<Rightarrow>
             Inr (set_cells_metrics
                    (recenter (jsnum_int (maxCells metrics)) (cells s) newCells) metrics s))"

definition setCellSize :: "int \<Rightarrow> int \<Rightarrow> int \<Rightarrow> AutomatonState \<Rightarrow> js_error + AutomatonState" where
  "setCellSize innerHeight innerWidth newSize s =
     (let metrics = calculateCanvasMetrics innerHeight innerWidth newSize (cellMargin s)
      in case new_array_false (maxCells metrics) of
           Inl e \<Rightarrow> Inl e
         | Inr newCells \<Rightarrow>
             Inr ((set_cells_metrics
                    (recenter (jsnum_int (maxCells metrics)) (cells s) newCells) metrics s)
                  \<lparr>cellSize := newSize\<rparr>))"

definition setCellMargin :: "int \<Rightarrow> int \<Rightarrow> int \<Rightarrow> AutomatonState \<Rightarrow> js_error + AutomatonState" where
  "setCellMargin innerHeight innerWidth margin s =
     (let metrics = calculateCanvasMetrics innerHeight innerWidth (cellSize s) margin
      in case new_array_false (maxCells metrics) of
           Inl e \<Rightarrow> Inl e
         | Inr newCells \<Rightarrow>
             Inr ((set_cells_metrics
                    (recenter (jsnum_int (maxCells metrics)) (cells s) newCells) metrics s)
                  \<lparr>cellMargin := margin\<rparr>))"

subsection \<open>The simulation store (\<^verbatim>\<open>useSimulationStore\<close>)\<close>

record SimulationState =
  sim_cells :: "jsbool list"
  sim_previousGenerations :: "jsbool list list"
  sim_rule :: int
  sim_ruleToggles :: "jsbool list"
  sim_generation :: int
  sim_isPlaying :: bool
  sim_speed :: int
  sim_lastInitPattern :: pattern
  sim_maxCells :: int

text \<open>
  Its \<^verbatim>\<open>step\<close> runs the same loop and appends a copy of the old cells; nothing is ever
  removed from the history.
\<close>

definition sim_step :: "SimulationState \<Rightarrow> SimulationState" where
  "sim_step s =
     (let nextCells = step_nextCells (sim_cells s) (sim_ruleToggles s)
      in s\<lparr>sim_previousGenerations := sim_previousGenerations s @ [sim_cells s],
           sim_cells := nextCells,
           sim_generation := sim_generation s + 1\<rparr>)"

subsection \<open>Sequences of history-appending actions\<close>

datatype history_op = OpStep | OpIncrementGeneration

fun apply_op :: "history_op \<Rightarrow> AutomatonState \<Rightarrow> AutomatonState" where
  "apply_op OpStep s = step s"
| "apply_op OpIncrementGeneration s = incrementGeneration s"

fun run_ops :: "history_op list \<Rightarrow> AutomatonState \<Rightarrow> AutomatonState" where
  "run_ops [] s = s"
| "run_ops (a # as) s = run_ops as (apply_op a s)"

text \<open>The generations that a run pushes, in push order: each action pushes the cells it finds.\<close>

fun pushed :: "history_op list \<Rightarrow> AutomatonState \<Rightarrow> jsbool list list" where
  "pushed [] s = []"
| "pushed (a # as) s = cells s # pushed as (apply_op a s)"

subsection \<open>How a call of \<^verbatim>\<open>step\<close> ends\<close>

text \<open>
  The body of \<^verbatim>\<open>step\<close> has no \<^verbatim>\<open>throw\<close> and no assertion, and an array read outside the
  array gives \<^verbatim>\<open>undefined\<close>: every call returns.
\<close>

definition step_result :: "AutomatonState \<Rightarrow> js_error + AutomatonState" where
  "step_result s = Inr (step s)"


section \<open>The renderer factory (\<^verbatim>\<open>RendererFactory\<close>)\<close>

datatype RendererType = WebGL | Canvas2D

text \<open>The class of a renderer instance: the GPU renderer of the respective factory, or
  \<^verbatim>\<open>Canvas2DRenderer\<close>.\<close>

datatype backend = GPUBackend | CPUBackend

text \<open>
  What the factory meets when it runs: the module variable \<^verbatim>\<open>webGLSupportCache\<close>, what
  \<^verbatim>\<open>canvas.getContext('webgl2')\<close> does in the probe (a context, \<^verbatim>\<open>null\<close>, or an exception), and
  whether the constructor of the GPU renderer and the two \<^verbatim>\<open>initialize\<close> methods throw.  The
  constructor of \<^verbatim>\<open>Canvas2DRenderer\<close> only initialises fields.
\<close>

datatype probe_outcome = ProbeContext | ProbeNull | ProbeThrows

record FactoryEnv =
  webGLSupportCache :: "bool option"
  probe :: probe_outcome
  gpu_constructor_throws :: bool
  gpu_initialize_throws :: bool
  cpu_initialize_throws :: bool

text \<open>
  \<^verbatim>\<open>isWebGL2Supported\<close>: the cached value if there is one; otherwise the probe's result is
  cached, \<^verbatim>\<open>false\<close> when the probe throws.  The \<^verbatim>\<open>finally\<close> block swallows its own exceptions and
  changes neither the result nor the cache.
\<close>

definition isWebGL2Supported :: "FactoryEnv \<Rightarrow> bool \<times> FactoryEnv" where
  "isWebGL2Supported env =
     (case webGLSupportCache env of
        Some b \<Rightarrow> (b, env)
      | None \<Rightarrow>
          (case probe env of
             ProbeContext \<Rightarrow> (True, env\<lparr>webGLSupportCache := Some True\<rparr>)
           | ProbeNull \<Rightarrow> (False, env\<lparr>webGLSupportCache := Some False\<rparr>)
           | ProbeThrows \<Rightarrow> (False, env\<lparr>webGLSupportCache := Some False\<rparr>)))"

text \<open>
  The result of a call of \<^verbatim>\<open>createRenderer\<close>: the renderer returned or the exception that
  reaches the caller, the constructors that were called, in order, and the environment
  afterwards.
\<close>

record FactoryRun =
  returned :: "js_error + backend"
  constructed :: "backend list"
  env_after :: FactoryEnv

text \<open>The first operand of the factory's test: \<^verbatim>\<open>preferredType === 'webgl' || !preferredType\<close>.\<close>

definition wants_gpu :: "RendererType option \<Rightarrow> bool" where
  "wants_gpu preferredType = (preferredType = Some WebGL \<or> preferredType = None)"

text \<open>
  \<^verbatim>\<open>createRenderer(preferredType?)\<close> of the factory over \<^verbatim>\<open>WebGLRenderer\<close>.  The probe runs only
  when the first operand of \<^verbatim>\<open>&&\<close> holds.
\<close>

definition createRenderer :: "RendererType option \<Rightarrow> FactoryEnv \<Rightarrow> FactoryRun" where
  "createRenderer preferredType env =
     (if wants_gpu preferredType then
        (let (supported, env') = isWebGL2Supported env
         in if supported then
              (if gpu_constructor_throws env'
               then \<lparr>returned = Inr CPUBackend, constructed = [GPUBackend, CPUBackend],
                      env_after = env'\<rparr>
               else \<lparr>returned = Inr GPUBackend, constructed = [GPUBackend], env_after = env'\<rparr>)
            else \<lparr>returned = Inr CPUBackend, constructed = [CPUBackend], env_after = env'\<rparr>)
      else \<lparr>returned = Inr CPUBackend, constructed = [CPUBackend], env_after = env\<rparr>)"

text \<open>
  The tail of the factory over \<^verbatim>\<open>WebGLComputeRenderer\<close>, outside its \<^verbatim>\<open>try\<close>:
  \<^verbatim>\<open>new Canvas2DRenderer()\<close>, then \<^verbatim>\<open>initialize(canvas)\<close> when a canvas was passed.
  \<^verbatim>\<open>Canvas2DRenderer.initialize\<close> throws \<^verbatim>\<open>Error('Failed to get 2D context')\<close>.
\<close>

definition canvas2d_fallback :: "bool \<Rightarrow> backend list \<Rightarrow> FactoryEnv \<Rightarrow> FactoryRun" where
  "canvas2d_fallback canvas earlier env =
     (if canvas \<and> cpu_initialize_throws env
      then \<lparr>returned = Inl (Error ''Failed to get 2D context''),
             constructed = earlier @ [CPUBackend], env_after = env\<rparr>
      else \<lparr>returned = Inr CPUBackend, constructed = earlier @ [CPUBackend], env_after = env\<rparr>)"

text \<open>
  \<^verbatim>\<open>createRenderer(preferredType?, canvas?)\<close> of the factory over \<^verbatim>\<open>WebGLComputeRenderer\<close>; the
  second argument says whether a canvas was passed.  Inside the \<^verbatim>\<open>try\<close> the GPU renderer is
  constructed and, with a canvas, initialised; the \<^verbatim>\<open>catch\<close> only logs.
\<close>

definition createRenderer_canvas :: "RendererType option \<Rightarrow> bool \<Rightarrow> FactoryEnv \<Rightarrow> FactoryRun" where
  "createRenderer_canvas preferredType canvas env =
     (if wants_gpu preferredType then
        (let (supported, env') = isWebGL2Supported env
         in if supported then
              (if gpu_constructor_throws env' \<or> (canvas \<and> gpu_initialize_throws env')
               then canvas2d_fallback canvas [GPUBackend] env'
               else \<lparr>returned = Inr GPUBackend, constructed = [GPUBackend], env_after = env'\<rparr>)
            else canvas2d_fallback canvas [] env')
      else canvas2d_fallback canvas [] env)"

section \<open>The renderers\<close>

subsection \<open>The state handed to \<^verbatim>\<open>render\<close>\<close>

text \<open>
  \<^verbatim>\<open>CellState\<close> with its \<^verbatim>\<open>viewport\<close> object.  The numbers are finite integers here; the stores
  produce other values only for \<open>cellSize + cellMargin = 0\<close>.  They are taken to be small enough
  for a typed array of one byte or four per texel to be allocated; a negative array length is
  modelled where the code can produce one.
\<close>

record Viewport =
  vp_width :: int
  vp_height :: int
  vp_cellSize :: int
  vp_cellMargin :: int
  vp_renderMargin :: int
  vp_maxVisibleGenerations :: int

record CellState =
  st_cells :: "jsbool list"
  st_previousGenerations :: "jsbool list list"
  st_generation :: int
  st_rule :: int
  st_viewport :: Viewport

text \<open>\<^verbatim>\<open>xs.slice(start)\<close> for an integer \<open>start\<close>: a negative start counts from the end.\<close>

definition js_slice_from :: "int \<Rightarrow> 'a list \<Rightarrow> 'a list" where
  "js_slice_from start xs =
     (let len = int (length xs);
          k = (if start < 0 then max (len + start) 0 else min start len)
      in drop (nat k) xs)"

subsection \<open>\<^verbatim>\<open>Canvas2DRenderer\<close>\<close>

record ViewportOptions =
  vo_cellSize :: int
  vo_cellMargin :: int
  vo_renderWidth :: int
  vo_renderMargin :: int
  vo_maxVisibleGenerations :: int
  vo_background :: string
  vo_primary :: string

text \<open>The fields \<^verbatim>\<open>canvas\<close> and \<^verbatim>\<open>ctx\<close> are references; the model records whether they are set.\<close>

record Canvas2DRenderer =
  c2d_canvas :: bool
  c2d_ctx :: bool
  c2d_dpr :: int
  c2d_options :: "ViewportOptions option"

definition new_Canvas2DRenderer :: Canvas2DRenderer where
  "new_Canvas2DRenderer = \<lparr>c2d_canvas = False, c2d_ctx = False, c2d_dpr = 1, c2d_options = None\<rparr>"

text \<open>
  \<^verbatim>\<open>initialize(canvas)\<close>; the first argument says whether \<^verbatim>\<open>getContext('2d')\<close> gives a context, the
  second is \<^verbatim>\<open>window.devicePixelRatio || 1\<close>.  The canvas is stored before the context is asked for.
\<close>

definition canvas2d_initialize ::
  "bool \<Rightarrow> int \<Rightarrow> Canvas2DRenderer \<Rightarrow> js_error option \<times> Canvas2DRenderer" where
  "canvas2d_initialize has_ctx dpr r =
     (let r1 = r\<lparr>c2d_canvas := True, c2d_dpr := dpr, c2d_ctx := has_ctx\<rparr>
      in if \<not> has_ctx then (Some (Error ''Failed to get 2D context''), r1) else (None, r1))"

definition canvas2d_updateViewport :: "ViewportOptions \<Rightarrow> Canvas2DRenderer \<Rightarrow> Canvas2DRenderer" where
  "canvas2d_updateViewport opts r = r\<lparr>c2d_options := Some opts\<rparr>"

definition canvas2d_dispose :: "Canvas2DRenderer \<Rightarrow> Canvas2DRenderer" where
  "canvas2d_dispose r = r\<lparr>c2d_canvas := False, c2d_ctx := False\<rparr>"

text \<open>The positions \<open>x\<close> at which \<^verbatim>\<open>genCells.forEach((cell, x) => { if (cell) ... })\<close> runs its body.\<close>

definition live_indices :: "jsbool list \<Rightarrow> nat list" where
  "live_indices genCells = filter (\<lambda>x. truthy (genCells ! x)) [0..<length genCells]"

text \<open>
  The cells that \<^verbatim>\<open>render\<close> fills, as pairs of cell index and row index, in drawing order: the
  rows of \<^verbatim>\<open>previousGenerations.slice(-maxVisibleGenerations)\<close> from row 0 on, then the current
  cells in the row after them.
\<close>

definition canvas2d_cells :: "CellState \<Rightarrow> ViewportOptions \<Rightarrow> (nat \<times> nat) list" where
  "canvas2d_cells st opts =
     (let visibleGenerations =
            js_slice_from (- vo_maxVisibleGenerations opts) (st_previousGenerations st);
          rows = concat (map (\<lambda>(index, genCells). map (\<lambda>x. (x, index)) (live_indices genCells))
                           (enumerate 0 visibleGenerations));
          currentRow = length visibleGenerations
      in rows @ map (\<lambda>x. (x, currentRow)) (live_indices (st_cells st)))"

text \<open>
  What \<^verbatim>\<open>render\<close> sends to the 2D context: the clearing rectangle, then one \<^verbatim>\<open>fillCell(x, y)\<close> per
  live cell with \<open>x = renderMargin + index * (cellSize + cellMargin)\<close> and
  \<open>y = row * (cellSize + cellMargin)\<close>.
\<close>

datatype canvas_command = ClearCanvas | FillCell int int

definition canvas2d_render :: "CellState \<Rightarrow> Canvas2DRenderer \<Rightarrow> Canvas2DRenderer \<times> canvas_command list" where
  "canvas2d_render st r =
     (case c2d_options r of
        None \<Rightarrow> (r, [])
      | Some opts \<Rightarrow>
          if \<not> c2d_ctx r \<or> \<not> c2d_canvas r then (r, [])
          else (r, ClearCanvas #
                   map (\<lambda>(x, row). FillCell
                          (vo_renderMargin opts + int x * (vo_cellSize opts + vo_cellMargin opts))
                          (int row * (vo_cellSize opts + vo_cellMargin opts)))
                     (canvas2d_cells st opts)))"

subsection \<open>The texture encoding of \<^verbatim>\<open>WebGLComputeRenderer.updateTexture\<close>\<close>

text \<open>
  \<^verbatim>\<open>Math.pow(2, Math.ceil(Math.log2(n)))\<close> for an integer \<open>n\<close>: the least power of two that
  is at least \<open>n\<close>; 0 for \<open>n = 0\<close> (the logarithm is \<open>-Infinity\<close>) and NaN for negative \<open>n\<close>.
\<close>

fun ceil_log2 :: "nat \<Rightarrow> nat" where
  "ceil_log2 n = (if n \<le> 1 then 0 else Suc (ceil_log2 ((n + 1) div 2)))"

definition pow2_ceil :: "int \<Rightarrow> jsnum" where
  "pow2_ceil n =
     (if n < 0 then JNaN else if n = 0 then JInt 0 else JInt (2 ^ ceil_log2 (nat n)))"


text \<open>
  The two nested \<^verbatim>\<open>forEach\<close> loops: row \<open>y\<close>, column \<open>x\<close>, and \<^verbatim>\<open>data[y * texWidth + x] = 255\<close> for a
  live cell.  A write outside a typed array is ignored, as a list update outside the list is.
\<close>

fun write_row :: "nat \<Rightarrow> nat \<Rightarrow> nat \<Rightarrow> jsbool list \<Rightarrow> nat list \<Rightarrow> nat list" where
  "write_row texWidth y x [] d = d"
| "write_row texWidth y x (cell # rest) d =
     write_row texWidth y (Suc x) rest (if truthy cell then d[y * texWidth + x := 255] else d)"

fun write_rows :: "nat \<Rightarrow> nat \<Rightarrow> jsbool list list \<Rightarrow> nat list \<Rightarrow> nat list" where
  "write_rows texWidth y [] d = d"
| "write_rows texWidth y (genCells # rest) d =
     write_rows texWidth (Suc y) rest (write_row texWidth y 0 genCells d)"



subsection \<open>The addressing of the display shader\<close>




section \<open>The GPU renderers\<close>

subsection \<open>The part of the WebGL context that the renderers drive\<close>

text \<open>
  Objects are names.  The model keeps the current program, the texture bound to unit 0, the
  bound framebuffer (\<open>None\<close> is the canvas), the colour attachment of each framebuffer, the
  deleted names, the size of the canvas, and a log of the operations that write pixels: each
  clear with its target, each draw call with its program, the texture it samples and its
  target.  Pixel contents are not part of it.
\<close>

datatype render_target = Screen | TextureTarget nat | NoTarget

datatype gl_write = Clear render_target | DrawCall "nat option" "nat option" render_target

record GLState =
  gl_next :: nat
  gl_program :: "nat option"
  gl_texture :: "nat option"
  gl_framebuffer :: "nat option"
  gl_attachments :: "(nat \<times> nat option) list"
  gl_deleted :: "nat list"
  gl_writes :: "gl_write list"
  gl_canvas_width :: int
  gl_canvas_height :: int

text \<open>The context of a canvas that nothing has used yet.\<close>

definition new_context :: "int \<Rightarrow> int \<Rightarrow> GLState" where
  "new_context w h =
     \<lparr>gl_next = 0, gl_program = None, gl_texture = None, gl_framebuffer = None,
      gl_attachments = [], gl_deleted = [], gl_writes = [],
      gl_canvas_width = w, gl_canvas_height = h\<rparr>"

text \<open>\<^verbatim>\<open>createShader\<close>, \<^verbatim>\<open>createProgram\<close>, \<^verbatim>\<open>createBuffer\<close>, \<^verbatim>\<open>createTexture\<close>, \<^verbatim>\<open>createFramebuffer\<close>.\<close>

definition gl_create :: "GLState \<Rightarrow> nat \<times> GLState" where
  "gl_create g = (gl_next g, g\<lparr>gl_next := Suc (gl_next g)\<rparr>)"

text \<open>The \<^verbatim>\<open>delete...\<close> calls; the renderers skip them for \<^verbatim>\<open>null\<close>.\<close>

definition gl_delete :: "nat option \<Rightarrow> GLState \<Rightarrow> GLState" where
  "gl_delete obj g = (case obj of None \<Rightarrow> g | Some n \<Rightarrow> g\<lparr>gl_deleted := n # gl_deleted g\<rparr>)"

definition gl_useProgram :: "nat option \<Rightarrow> GLState \<Rightarrow> GLState" where
  "gl_useProgram p g = g\<lparr>gl_program := p\<rparr>"

definition gl_bindTexture :: "nat option \<Rightarrow> GLState \<Rightarrow> GLState" where
  "gl_bindTexture t g = g\<lparr>gl_texture := t\<rparr>"

definition gl_bindFramebuffer :: "nat option \<Rightarrow> GLState \<Rightarrow> GLState" where
  "gl_bindFramebuffer f g = g\<lparr>gl_framebuffer := f\<rparr>"

text \<open>\<^verbatim>\<open>framebufferTexture2D(FRAMEBUFFER, COLOR_ATTACHMENT0, TEXTURE_2D, t, 0)\<close> on the bound framebuffer.\<close>

definition gl_framebufferTexture2D :: "nat option \<Rightarrow> GLState \<Rightarrow> GLState" where
  "gl_framebufferTexture2D t g =
     (case gl_framebuffer g of
        None \<Rightarrow> g
      | Some fb \<Rightarrow> g\<lparr>gl_attachments := (fb, t) # gl_attachments g\<rparr>)"

definition gl_target :: "GLState \<Rightarrow> render_target" where
  "gl_target g =
     (case gl_framebuffer g of
        None \<Rightarrow> Screen
      | Some fb \<Rightarrow>
          (case map_of (gl_attachments g) fb of
             Some (Some t) \<Rightarrow> TextureTarget t
           | Some None \<Rightarrow> NoTarget
           | None \<Rightarrow> NoTarget))"

definition gl_clear :: "GLState \<Rightarrow> GLState" where
  "gl_clear g = g\<lparr>gl_writes := gl_writes g @ [Clear (gl_target g)]\<rparr>"

definition gl_drawArrays :: "GLState \<Rightarrow> GLState" where
  "gl_drawArrays g =
     g\<lparr>gl_writes := gl_writes g @ [DrawCall (gl_program g) (gl_texture g) (gl_target g)]\<rparr>"

subsection \<open>The fields of the two GPU renderer classes\<close>

text \<open>
  \<^verbatim>\<open>WebGLRenderer\<close> and \<^verbatim>\<open>WebGLComputeRenderer\<close> have the same fields, except that only the second
  has \<^verbatim>\<open>rule\<close>.  The fields \<^verbatim>\<open>generation\<close> and \<^verbatim>\<open>rule\<close> are \<open>rendererGeneration\<close> and
  \<open>rendererRule\<close> here.  The field \<^verbatim>\<open>gl\<close> is a reference to the context; the model keeps the
  context's state in it.
\<close>

record GPURenderer =
  gl :: "GLState option"
  displayProgram :: "nat option"
  computeProgram :: "nat option"
  quadBuffer :: "nat option"
  textures :: "nat option list"
  framebuffers :: "nat option list"
  currentTexture :: int
  textureWidth :: jsnum
  textureHeight :: jsnum
  rendererGeneration :: int
  rendererRule :: int

text \<open>\<^verbatim>\<open>this.textures[i]\<close> and \<^verbatim>\<open>this.framebuffers[i]\<close>; \<^verbatim>\<open>undefined\<close> and \<^verbatim>\<open>null\<close> both bind nothing.\<close>

definition arr_ref :: "nat option list \<Rightarrow> int \<Rightarrow> nat option" where
  "arr_ref xs i = (if 0 \<le> i \<and> i < int (length xs) then xs ! nat i else None)"

text \<open>\<^verbatim>\<open>a !== b\<close> on numbers: NaN differs from everything, itself included.\<close>

definition js_strict_neq :: "jsnum \<Rightarrow> jsnum \<Rightarrow> bool" where
  "js_strict_neq a b = (a \<noteq> b \<or> a = JNaN)"

text \<open>
  How the shader compiler and linker answer.  \<^verbatim>\<open>createShader\<close> and \<^verbatim>\<open>createProgram\<close> throw when
  compiling or linking fails, after deleting the object they created.  (\<^verbatim>\<open>WebGLRenderer\<close> imports
  the two helpers from a module that is not among the sources; \<^verbatim>\<open>WebGLComputeRenderer\<close> defines
  them itself.)
\<close>

record ShaderEnv =
  vertex_compiles :: bool
  display_compiles :: bool
  compute_compiles :: bool
  display_links :: bool
  compute_links :: bool

text \<open>
  The first part of both \<^verbatim>\<open>initialize\<close> methods: three shaders, then the display program, then
  the compute program, then the shaders are deleted.  The result is the exception if one was
  thrown, the programs as far as they were assigned to their fields, and the context.
\<close>

definition create_programs ::
  "ShaderEnv \<Rightarrow> GLState \<Rightarrow> js_error option \<times> nat option \<times> nat option \<times> GLState" where
  "create_programs sh g =
     (let (vs, g1) = gl_create g in
      if \<not> vertex_compiles sh
      then (Some (Error ''Shader compile error''), None, None, gl_delete (Some vs) g1)
      else
        let (ds, g2) = gl_create g1 in
        if \<not> display_compiles sh
        then (Some (Error ''Shader compile error''), None, None, gl_delete (Some ds) g2)
        else
          let (cs, g3) = gl_create g2 in
          if \<not> compute_compiles sh
          then (Some (Error ''Shader compile error''), None, None, gl_delete (Some cs) g3)
          else
            let (dp, g4) = gl_create g3 in
            if \<not> display_links sh
            then (Some (Error ''Program link error''), None, None, gl_delete (Some dp) g4)
            else
              let (cp, g5) = gl_create g4 in
              if \<not> compute_links sh
              then (Some (Error ''Program link error''), Some dp, None, gl_delete (Some cp) g5)
              else (None, Some dp, Some cp,
                    gl_delete (Some cs) (gl_delete (Some ds) (gl_delete (Some vs) g5))))"

text \<open>A field keeps its value when the assignment to it was not reached.\<close>

definition assigned :: "'a option \<Rightarrow> 'a option \<Rightarrow> 'a option" where
  "assigned new old = (case new of None \<Rightarrow> old | Some v \<Rightarrow> Some v)"

subsection \<open>\<^verbatim>\<open>WebGLComputeRenderer\<close>\<close>

definition new_WebGLComputeRenderer :: GPURenderer where
  "new_WebGLComputeRenderer =
     \<lparr>gl = None, displayProgram = None, computeProgram = None, quadBuffer = None,
      textures = [], framebuffers = [], currentTexture = 0,
      textureWidth = JInt 1, textureHeight = JInt 1, rendererGeneration = 0, rendererRule = 0\<rparr>"

text \<open>\<^verbatim>\<open>initializeTextures\<close>: two textures, each bound in turn to receive its parameters and a
  1 by 1 image.\<close>

definition compute_initializeTextures :: "GLState \<Rightarrow> nat option list \<times> GLState" where
  "compute_initializeTextures g =
     (let (t0, g1) = gl_create g;
          (t1, g2) = gl_create g1
      in ([Some t0, Some t1], gl_bindTexture (Some t1) (gl_bindTexture (Some t0) g2)))"

text \<open>
  \<^verbatim>\<open>initialize(canvas)\<close>; the first argument is the WebGL2 context of the canvas, if it has one.
  After the programs come the quad buffer, the textures, and one framebuffer per texture with
  that texture attached.
\<close>

definition compute_initialize ::
  "GLState option \<Rightarrow> ShaderEnv \<Rightarrow> GPURenderer \<Rightarrow> js_error option \<times> GPURenderer" where
  "compute_initialize ctx sh r =
     (case ctx of
        None \<Rightarrow> (Some (Error ''WebGL2 not supported''), r)
      | Some g \<Rightarrow>
          (case create_programs sh g of
             (Some e, dp, cp, g1) \<Rightarrow>
               (Some e, r\<lparr>gl := Some g1, displayProgram := assigned dp (displayProgram r),
                           computeProgram := assigned cp (computeProgram r)\<rparr>)
           | (None, dp, cp, g1) \<Rightarrow>
               (let (qb, g2) = gl_create g1;
                    (texs, g3) = compute_initializeTextures g2;
                    (fb0, g4) = gl_create g3;
                    g5 = gl_framebufferTexture2D (arr_ref texs 0) (gl_bindFramebuffer (Some fb0) g4);
                    (fb1, g6) = gl_create g5;
                    g7 = gl_framebufferTexture2D (arr_ref texs 1) (gl_bindFramebuffer (Some fb1) g6)
                in (None, r\<lparr>gl := Some g7, displayProgram := dp, computeProgram := cp,
                              quadBuffer := Some qb, textures := texs,
                              framebuffers := [Some fb0, Some fb1]\<rparr>))))"

text \<open>
  \<^verbatim>\<open>updateTexture(state)\<close> as far as the renderer and the bindings go (the uploaded image is
  \<open>texture_data\<close>): both textures are bound in turn when the size changed, texture 0 is bound
  for the upload, and \<^verbatim>\<open>currentTexture\<close> and \<^verbatim>\<open>generation\<close> are set.
\<close>

definition compute_updateTexture :: "CellState \<Rightarrow> GPURenderer \<Rightarrow> GPURenderer" where
  "compute_updateTexture st r =
     (case gl r of
        None \<Rightarrow> r
      | Some g \<Rightarrow>
          (let texWidth = pow2_ceil (int (length (st_cells st)));
               texHeight = pow2_ceil (vp_maxVisibleGenerations (st_viewport st));
               resized = (js_strict_neq texWidth (textureWidth r) \<or>
                          js_strict_neq texHeight (textureHeight r));
               g1 = (if resized
                     then gl_bindTexture (arr_ref (textures r) 1)
                            (gl_bindTexture (arr_ref (textures r) 0) g)
                     else g);
               g2 = gl_bindTexture (arr_ref (textures r) 0) g1
           in r\<lparr>gl := Some g2,
                textureWidth := (if resized then texWidth else textureWidth r),
                textureHeight := (if resized then texHeight else textureHeight r),
                currentTexture := 0,
                rendererGeneration := st_generation st\<rparr>))"

text \<open>
  \<^verbatim>\<open>computeNextState()\<close>: the compute program samples \<^verbatim>\<open>textures[currentTexture]\<close> and renders
  into \<^verbatim>\<open>framebuffers[1 - currentTexture]\<close>, which is cleared first; then the index is flipped.
\<close>

definition compute_computeNextState :: "GPURenderer \<Rightarrow> GPURenderer" where
  "compute_computeNextState r =
     (case gl r of
        None \<Rightarrow> r
      | Some g \<Rightarrow>
          if computeProgram r = None then r
          else
            (let g1 = gl_useProgram (computeProgram r) g;
                 g2 = gl_bindTexture (arr_ref (textures r) (currentTexture r)) g1;
                 nextTexture = 1 - currentTexture r;
                 g3 = gl_bindFramebuffer (arr_ref (framebuffers r) nextTexture) g2;
                 g4 = gl_drawArrays (gl_clear g3)
             in r\<lparr>gl := Some g4, currentTexture := nextTexture\<rparr>))"

text \<open>
  \<^verbatim>\<open>render(state)\<close> up to its last statement, in the three steps of the source: the canvas
  takes the viewport's size if it differs; the texture is updated when the generation changed;
  the display program draws \<^verbatim>\<open>textures[currentTexture]\<close> to the cleared canvas.
\<close>

definition sync_canvas_size :: "CellState \<Rightarrow> GPURenderer \<Rightarrow> GPURenderer" where
  "sync_canvas_size st r =
     (case gl r of
        None \<Rightarrow> r
      | Some g \<Rightarrow>
          if gl_canvas_width g \<noteq> vp_width (st_viewport st) \<or>
             gl_canvas_height g \<noteq> vp_height (st_viewport st)
          then r\<lparr>gl := Some (g\<lparr>gl_canvas_width := vp_width (st_viewport st),
                                  gl_canvas_height := vp_height (st_viewport st)\<rparr>)\<rparr>
          else r)"

definition compute_sync_texture :: "CellState \<Rightarrow> GPURenderer \<Rightarrow> GPURenderer" where
  "compute_sync_texture st r =
     (if st_generation st \<noteq> rendererGeneration r
      then compute_updateTexture st (r\<lparr>rendererRule := st_rule st\<rparr>)
      else r)"

definition display_pass :: "GPURenderer \<Rightarrow> GPURenderer" where
  "display_pass r =
     (case gl r of
        None \<Rightarrow> r
      | Some g \<Rightarrow>
          r\<lparr>gl := Some (gl_drawArrays (gl_clear (gl_bindFramebuffer None
                 (gl_bindTexture (arr_ref (textures r) (currentTexture r))
                    (gl_useProgram (displayProgram r) g)))))\<rparr>)"

definition compute_display :: "CellState \<Rightarrow> GPURenderer \<Rightarrow> GPURenderer" where
  "compute_display st r = display_pass (compute_sync_texture st (sync_canvas_size st r))"

text \<open>\<^verbatim>\<open>render(state)\<close>: nothing without a context or a display program; otherwise the display
  pass and then \<^verbatim>\<open>computeNextState()\<close>.\<close>

definition compute_render :: "CellState \<Rightarrow> GPURenderer \<Rightarrow> GPURenderer" where
  "compute_render st r =
     (if gl r = None \<or> displayProgram r = None then r
      else compute_computeNextState (compute_display st r))"

text \<open>\<^verbatim>\<open>dispose()\<close> calls \<^verbatim>\<open>cleanup()\<close>, which deletes the objects and assigns no field.\<close>

definition compute_cleanup :: "GPURenderer \<Rightarrow> GPURenderer" where
  "compute_cleanup r =
     (case gl r of
        None \<Rightarrow> r
      | Some g \<Rightarrow>
          r\<lparr>gl := Some (fold gl_delete (framebuffers r)
                   (fold gl_delete (textures r)
                      (gl_delete (quadBuffer r)
                         (gl_delete (computeProgram r) (gl_delete (displayProgram r) g)))))\<rparr>)"

definition compute_dispose :: "GPURenderer \<Rightarrow> GPURenderer" where
  "compute_dispose r = compute_cleanup r"

subsection \<open>\<^verbatim>\<open>WebGLRenderer\<close>\<close>

definition new_WebGLRenderer :: GPURenderer where
  "new_WebGLRenderer =
     \<lparr>gl = None, displayProgram = None, computeProgram = None, quadBuffer = None,
      textures = [None, None], framebuffers = [None, None], currentTexture = 0,
      textureWidth = JInt 0, textureHeight = JInt 0, rendererGeneration = 0, rendererRule = 0\<rparr>"

text \<open>\<^verbatim>\<open>initialize(canvas)\<close>: here each texture is created, bound and attached to its new
  framebuffer in one loop.\<close>

definition webgl_initialize ::
  "GLState option \<Rightarrow> ShaderEnv \<Rightarrow> GPURenderer \<Rightarrow> js_error option \<times> GPURenderer" where
  "webgl_initialize ctx sh r =
     (case ctx of
        None \<Rightarrow> (Some (Error ''WebGL2 not supported''), r)
      | Some g \<Rightarrow>
          (case create_programs sh g of
             (Some e, dp, cp, g1) \<Rightarrow>
               (Some e, r\<lparr>gl := Some g1, displayProgram := assigned dp (displayProgram r),
                           computeProgram := assigned cp (computeProgram r)\<rparr>)
           | (None, dp, cp, g1) \<Rightarrow>
               (let (qb, g2) = gl_create g1;
                    (t0, g3) = gl_create g2;
                    (fb0, g4) = gl_create (gl_bindTexture (Some t0) g3);
                    g5 = gl_framebufferTexture2D (Some t0) (gl_bindFramebuffer (Some fb0) g4);
                    (t1, g6) = gl_create g5;
                    (fb1, g7) = gl_create (gl_bindTexture (Some t1) g6);
                    g8 = gl_framebufferTexture2D (Some t1) (gl_bindFramebuffer (Some fb1) g7)
                in (None, r\<lparr>gl := Some g8, displayProgram := dp, computeProgram := cp,
                              quadBuffer := Some qb,
                              textures := (textures r)[0 := Some t0, 1 := Some t1],
                              framebuffers := (framebuffers r)[0 := Some fb0, 1 := Some fb1]\<rparr>))))"

text \<open>
  \<^verbatim>\<open>updateTexture(state)\<close>: the texture has \<^verbatim>\<open>cells.length\<close> columns and
  \<^verbatim>\<open>maxVisibleGenerations + 1\<close> rows.  When the size changed the two fields are assigned and
  both textures are bound in turn to be resized.  Then \<^verbatim>\<open>new Uint8Array(width * height * 4)\<close>
  throws a \<^verbatim>\<open>RangeError\<close> if that length is negative, which leaves the method before the
  upload and before \<^verbatim>\<open>currentTexture\<close> and \<^verbatim>\<open>generation\<close> are assigned.
\<close>

definition webgl_updateTexture ::
  "CellState \<Rightarrow> GPURenderer \<Rightarrow> js_error option \<times> GPURenderer" where
  "webgl_updateTexture st r =
     (case gl r of
        None \<Rightarrow> (None, r)
      | Some g \<Rightarrow>
          (let width = int (length (st_cells st));
               height = vp_maxVisibleGenerations (st_viewport st) + 1;
               resized = (js_strict_neq (JInt width) (textureWidth r) \<or>
                          js_strict_neq (JInt height) (textureHeight r));
               g1 = (if resized
                     then gl_bindTexture (arr_ref (textures r) 1)
                            (gl_bindTexture (arr_ref (textures r) 0) g)
                     else g);
               r1 = r\<lparr>gl := Some g1,
                       textureWidth := (if resized then JInt width else textureWidth r),
                       textureHeight := (if resized then JInt height else textureHeight r)\<rparr>
           in if width * height * 4 < 0 then (Some RangeError, r1)
              else (None, r1\<lparr>gl := Some (gl_bindTexture (arr_ref (textures r) 0) g1),
                              currentTexture := 0,
                              rendererGeneration := st_generation st\<rparr>)))"

text \<open>\<^verbatim>\<open>computeNextState()\<close>: as in the other class, without the clear.\<close>

definition webgl_computeNextState :: "GPURenderer \<Rightarrow> GPURenderer" where
  "webgl_computeNextState r =
     (case gl r of
        None \<Rightarrow> r
      | Some g \<Rightarrow>
          if computeProgram r = None then r
          else
            (let g1 = gl_useProgram (computeProgram r) g;
                 g2 = gl_bindTexture (arr_ref (textures r) (currentTexture r)) g1;
                 nextTexture = 1 - currentTexture r;
                 g3 = gl_bindFramebuffer (arr_ref (framebuffers r) nextTexture) g2;
                 g4 = gl_drawArrays g3
             in r\<lparr>gl := Some g4, currentTexture := nextTexture\<rparr>))"

text \<open>\<^verbatim>\<open>render(state)\<close> up to its last statement: the texture update when the generation changed,
  then the same display pass.  An exception of \<^verbatim>\<open>updateTexture\<close> is not caught, so it ends
  \<^verbatim>\<open>render\<close> before either pass.\<close>

definition webgl_sync_texture ::
  "CellState \<Rightarrow> GPURenderer \<Rightarrow> js_error option \<times> GPURenderer" where
  "webgl_sync_texture st r =
     (if st_generation st \<noteq> rendererGeneration r then webgl_updateTexture st r else (None, r))"

definition webgl_display ::
  "CellState \<Rightarrow> GPURenderer \<Rightarrow> js_error option \<times> GPURenderer" where
  "webgl_display st r =
     (case webgl_sync_texture st r of
        (Some e, r') \<Rightarrow> (Some e, r')
      | (None, r') \<Rightarrow> (None, display_pass r'))"

definition webgl_render ::
  "CellState \<Rightarrow> GPURenderer \<Rightarrow> js_error option \<times> GPURenderer" where
  "webgl_render st r =
     (if gl r = None \<or> displayProgram r = None then (None, r)
      else (case webgl_display st r of
              (Some e, r') \<Rightarrow> (Some e, r')
            | (None, r') \<Rightarrow> (None, webgl_computeNextState r')))"

text \<open>\<^verbatim>\<open>dispose()\<close>: deletes the objects and resets every reference, the context included.  The
  deletions happen in a context that the renderer no longer refers to.\<close>

definition webgl_dispose :: "GPURenderer \<Rightarrow> GPURenderer" where
  "webgl_dispose r =
     (case gl r of
        None \<Rightarrow> r
      | Some g \<Rightarrow>
          r\<lparr>displayProgram := None, computeProgram := None, quadBuffer := None,
            textures := [None, None], framebuffers := [None, None], gl := None\<rparr>)"

subsection \<open>Renderers in use\<close>



section \<open>Notions and concrete states used in the properties\<close>

text \<open>
  The pattern of position \<open>i\<close> as the specification writes it,
  \<open>4 * left + 2 * center + right\<close> with \<open>left = g[(i - 1 + N) % N]\<close>, \<open>center = g[i]\<close>
  and \<open>right = g[(i + 1) % N]\<close>, a live cell counting 1.
\<close>

definition cell_bit :: "jsbool \<Rightarrow> nat" where
  "cell_bit v = (if truthy v then 1 else 0)"

definition spec_pattern :: "jsbool list \<Rightarrow> nat \<Rightarrow> nat" where
  "spec_pattern g i =
     (let N = length g
      in 4 * cell_bit (g ! nat ((int i - 1 + int N) mod int N))
         + 2 * cell_bit (g ! i)
         + cell_bit (g ! ((i + 1) mod N)))"

text \<open>A small store state for concrete instances: three cells, rule 30, room for two rows.\<close>

definition demo_state :: AutomatonState where
  "demo_state =
     \<lparr>availableWidth = 12, maxCells = JInt 3, renderWidth = JInt 12, renderMargin = JInt 0,
      maxVisibleGenerations = JInt 2,
      cells = [Some False, Some True, Some False], previousGenerations = [],
      rule = 30, ruleToggles = preset_toggles 30, isPlaying = False, generation = 0,
      cellSize = 4, cellMargin = 0, speed = 10, lastInitPattern = Single\<rparr>"

text \<open>Further concrete states: a state with history, one with a one-entry rule table, and a
  state of the simulation store.\<close>

definition demo_history :: "jsbool list list" where
  "demo_history = [[Some True, Some False, Some False], [Some True, Some True, Some False]]"

definition demo_full :: AutomatonState where
  "demo_full = demo_state\<lparr>previousGenerations := demo_history\<rparr>"

definition demo_unchecked :: AutomatonState where
  "demo_unchecked = demo_state\<lparr>ruleToggles := [Some True], previousGenerations := [[Some True]]\<rparr>"

definition sim_demo :: SimulationState where
  "sim_demo =
     \<lparr>sim_cells = [Some False, Some True, Some False], sim_previousGenerations = [],
      sim_rule = 30, sim_ruleToggles = sim_preset_toggles 30, sim_generation = 0,
      sim_isPlaying = False, sim_speed = 10, sim_lastInitPattern = Single, sim_maxCells = 3\<rparr>"

text \<open>An environment of the factory in which WebGL2 is known to be supported and both
  \<^verbatim>\<open>initialize\<close> methods throw.\<close>

definition demo_env :: FactoryEnv where
  "demo_env =
     \<lparr>webGLSupportCache = Some True, probe = ProbeContext, gpu_constructor_throws = False,
      gpu_initialize_throws = True, cpu_initialize_throws = True\<rparr>"

text \<open>A state and matching viewport options for the renderers: three cells, one row of history,
  room for three rows.\<close>

definition demo_viewport :: Viewport where
  "demo_viewport =
     \<lparr>vp_width = 12, vp_height = 12, vp_cellSize = 4, vp_cellMargin = 0, vp_renderMargin = 0,
      vp_maxVisibleGenerations = 3\<rparr>"

definition demo_cellstate :: CellState where
  "demo_cellstate =
     \<lparr>st_cells = [Some False, Some True, Some True],
      st_previousGenerations = [[Some False, Some True, Some False]],
      st_generation = 1, st_rule = 30, st_viewport = demo_viewport\<rparr>"

definition demo_options :: ViewportOptions where
  "demo_options =
     \<lparr>vo_cellSize = 4, vo_cellMargin = 0, vo_renderWidth = 12, vo_renderMargin = 0,
      vo_maxVisibleGenerations = 3, vo_background = ''#1a1a1a'', vo_primary = ''#4a9cff''\<rparr>"




text \<open>A shader environment in which everything compiles and links.\<close>

definition all_shaders_ok :: ShaderEnv where
  "all_shaders_ok =
     \<lparr>vertex_compiles = True, display_compiles = True, compute_compiles = True,
      display_links = True, compute_links = True\<rparr>"

text \<open>The two GPU renderers after a successful \<^verbatim>\<open>initialize\<close> on a new 12 by 12 canvas.\<close>

definition demo_compute_renderer :: GPURenderer where
  "demo_compute_renderer =
     snd (compute_initialize (Some (new_context 12 12)) all_shaders_ok new_WebGLComputeRenderer)"

definition demo_webgl_renderer :: GPURenderer where
  "demo_webgl_renderer =
     snd (webgl_initialize (Some (new_context 12 12)) all_shaders_ok new_WebGLRenderer)"

text \<open>
  What the ping-pong pair relies on: a context, both programs, two different textures, and two
  framebuffers of which the first has the first texture attached and the second the second,
  with \<^verbatim>\<open>currentTexture\<close> being 0 or 1.
\<close>

definition ping_pong_inv :: "GPURenderer \<Rightarrow> bool" where
  "ping_pong_inv r \<longleftrightarrow>
     (\<exists>g t0 t1 f0 f1.
        gl r = Some g \<and> displayProgram r \<noteq> None \<and> computeProgram r \<noteq> None \<and>
        textures r = [Some t0, Some t1] \<and> t0 \<noteq> t1 \<and>
        framebuffers r = [Some f0, Some f1] \<and>
        map_of (gl_attachments g) f0 = Some (Some t0) \<and>
        map_of (gl_attachments g) f1 = Some (Some t1) \<and>
        (currentTexture r = 0 \<or> currentTexture r = 1))"


section \<open>Properties of the stores\<close>

subsection \<open>The rule engine\<close>

lemma js_rem_nonneg: "0 \<le> a \<Longrightarrow> 0 < b \<Longrightarrow> js_rem a b = a mod b"
  by (cases "a = 0") (simp_all add: js_rem_def)

lemma foldl_update_length:
  "length (foldl (\<lambda>a i. a[g i := f i]) xs is) = length xs"
  by (induction "is" arbitrary: xs) simp_all

lemma foldl_update_upt_nth:
  "i < n \<Longrightarrow> n \<le> length xs \<Longrightarrow> foldl (\<lambda>a i. a[i := f i]) xs [0..<n] ! i = f i"
proof (induction n)
  case 0
  then show ?case by simp
next
  case (Suc n)
  show ?case
  proof (cases "i = n")
    case True
    with Suc.prems show ?thesis by (simp add: foldl_update_length)
  next
    case False
    with Suc show ?thesis by (simp add: foldl_update_length)
  qed
qed

lemma step_nextCells_length: "length (step_nextCells cs t) = length cs"
  by (simp add: step_nextCells_def foldl_update_length)

lemma step_nextCells_nth:
  "i < length cs \<Longrightarrow> step_nextCells cs t ! i = arr_get t (7 - step_idx cs i)"
  unfolding step_nextCells_def
  by (rule foldl_update_upt_nth) simp_all

lemma arr_get_in_range: "i < length xs \<Longrightarrow> arr_get xs (int i) = xs ! i"
  by (simp add: arr_get_def)

lemma step_idx_spec:
  assumes "i < length g"
  shows "step_idx g i = int (spec_pattern g i)"
proof -
  let ?n = "int (length g)"
  have n: "0 < ?n" using assms by auto
  have l: "js_rem (int i - 1 + ?n) ?n = (int i - 1 + ?n) mod ?n"
    using assms by (intro js_rem_nonneg) auto
  have "js_rem (int i + 1) ?n = (int i + 1) mod ?n"
    using n by (intro js_rem_nonneg) auto
  then have r: "js_rem (int i + 1) ?n = int ((i + 1) mod length g)"
    by (simp add: zmod_int add.commute)
  have lr: "0 \<le> (int i - 1 + ?n) mod ?n" "(int i - 1 + ?n) mod ?n < ?n"
    using n by simp_all
  have L: "arr_get g (js_rem (int i - 1 + ?n) ?n) = g ! nat ((int i - 1 + ?n) mod ?n)"
    unfolding l using lr by (simp add: arr_get_def)
  have "(i + 1) mod length g < length g"
    using assms by (intro mod_less_divisor) auto
  then have R: "arr_get g (js_rem (int i + 1) ?n) = g ! ((i + 1) mod length g)"
    unfolding r by (rule arr_get_in_range)
  have C: "arr_get g (int i) = g ! i"
    using assms by (rule arr_get_in_range)
  show ?thesis
    unfolding step_idx_def spec_pattern_def Let_def L C R cell_bit_def
    by simp
qed

lemma spec_pattern_le: "spec_pattern g i \<le> 7"
  by (simp add: spec_pattern_def cell_bit_def Let_def)

lemma cells_step: "cells (step s) = step_nextCells (cells s) (ruleToggles s)"
  by (simp add: step_def Let_def)

lemma sim_cells_step:
  "sim_cells (sim_step u) = step_nextCells (sim_cells u) (sim_ruleToggles u)"
  by (simp add: sim_step_def Let_def)

text \<open>
  C1.  For every cell array \<open>g\<close> and every 8-entry rule table \<open>t\<close>, the loop of \<^verbatim>\<open>step\<close>
  produces an array of the same length whose entry \<open>i\<close> is \<open>t[7 - pattern]\<close>, the pattern being
  \<open>4 * left + 2 * center + right\<close> over the wrapped neighbours.  An empty array stays empty, and
  a single cell is its own left and right neighbour.  The new cells of \<^verbatim>\<open>useStore\<close> and of
  \<^verbatim>\<open>useSimulationStore\<close> are the result of that loop.
\<close>

theorem step_applies_rule_table:
  assumes "length t = 8"
  shows "length (step_nextCells g t) = length g \<and>
         (\<forall>i < length g. step_nextCells g t ! i = t ! (7 - spec_pattern g i)) \<and>
         (g = [] \<longrightarrow> step_nextCells g t = []) \<and>
         (\<forall>c. g = [c] \<longrightarrow> step_nextCells g t = [t ! (7 - 7 * cell_bit c)]) \<and>
         cells (step s) = step_nextCells (cells s) (ruleToggles s) \<and>
         sim_cells (sim_step u) = step_nextCells (sim_cells u) (sim_ruleToggles u)"
proof -
  have len: "length (step_nextCells g t) = length g"
    by (rule step_nextCells_length)
  have nth: "step_nextCells g t ! i = t ! (7 - spec_pattern g i)" if "i < length g" for i
  proof -
    have e: "7 - int (spec_pattern g i) = int (7 - spec_pattern g i)"
      using spec_pattern_le [of g i] by linarith
    have b: "7 - spec_pattern g i < length t"
      using assms by simp
    have "step_nextCells g t ! i = arr_get t (7 - step_idx g i)"
      using that by (rule step_nextCells_nth)
    also have "\<dots> = arr_get t (int (7 - spec_pattern g i))"
      by (simp only: step_idx_spec [OF that] e)
    also have "\<dots> = t ! (7 - spec_pattern g i)"
      using b by (rule arr_get_in_range)
    finally show ?thesis .
  qed
  have empty: "step_nextCells g t = []" if "g = []"
    using len that by simp
  have single: "step_nextCells g t = [t ! (7 - 7 * cell_bit c)]" if "g = [c]" for c
  proof -
    have "length (step_nextCells g t) = 1" using len that by simp
    moreover have "step_nextCells g t ! 0 = t ! (7 - spec_pattern g 0)"
      using nth [of 0] that by simp
    moreover have "spec_pattern [c] 0 = 7 * cell_bit c"
      by (simp add: spec_pattern_def)
    ultimately show ?thesis
      using that by (cases "step_nextCells g t") simp_all
  qed
  from len nth empty single cells_step [of s] sim_cells_step [of u] show ?thesis by blast
qed

subsection \<open>Concrete rule tables\<close>

lemma upt8: "[0..<8] = [0, 1, 2, 3, 4, 5, 6, 7]"
  by (simp add: upt_rec)

lemma preset_toggles_30: "preset_toggles 30 = [Some False, Some False, Some False, Some True, Some True, Some True, Some True, Some False]"
  by code_simp

theorem step_applies_rule_table_witness:
  "length (preset_toggles 30) = 8 \<and>
   length (step_nextCells [Some False, Some True, Some False] (preset_toggles 30)) = 3 \<and>
   step_nextCells [Some False, Some True, Some False] (preset_toggles 30) ! 1 = Some True \<and>
   cells (step demo_state) = step_nextCells (cells demo_state) (ruleToggles demo_state)"
proof -
  let ?g = "[Some False, Some True, Some False] :: jsbool list"
  have l: "length (preset_toggles 30) = 8"
    by (simp add: preset_toggles_30)
  have t: "preset_toggles 30 ! 5 = Some True"
    by (simp add: preset_toggles_30)
  have p: "spec_pattern ?g (Suc 0) = 2"
    by (simp add: spec_pattern_def cell_bit_def truthy_def)
  note inst = step_applies_rule_table [OF l, of ?g demo_state]
  have len: "length (step_nextCells ?g (preset_toggles 30)) = length ?g"
    by (rule inst [THEN conjunct1])
  have nth: "\<forall>i<length ?g. step_nextCells ?g (preset_toggles 30) ! i =
                preset_toggles 30 ! (7 - spec_pattern ?g i)"
    by (rule inst [THEN conjunct2, THEN conjunct1])
  have st: "cells (step demo_state) = step_nextCells (cells demo_state) (ruleToggles demo_state)"
    using inst by blast
  from nth have "step_nextCells ?g (preset_toggles 30) ! 1 =
      preset_toggles 30 ! (7 - spec_pattern ?g 1)"
    by simp
  then have "step_nextCells ?g (preset_toggles 30) ! 1 = Some True"
    by (simp add: p t)
  with l len st show ?thesis by simp
qed

subsection \<open>Rule numbers and rule tables\<close>

lemma rep8: "replicate 8 x = [x, x, x, x, x, x, x, x]"
  by (simp add: eval_nat_numeral)

lemma and_one_eq_one_iff: "((w :: 32 word) AND 1) = 1 \<longleftrightarrow> bit w 0"
  by (simp add: and_one_eq bit_0 mod_2_eq_odd)

lemma bit_preset: "i < 8 \<Longrightarrow> (signed_drop_bit i (to_int32 r) AND 1) = 1 \<longleftrightarrow> bit r i"
  by (simp add: and_one_eq_one_iff to_int32_def bit_signed_drop_bit_iff bit_word_of_int_iff)

lemma bit_sim_preset: "i < 8 \<Longrightarrow> (to_int32 r AND push_bit i 1) \<noteq> 0 \<longleftrightarrow> bit r i"
  unfolding bit_iff_and_push_bit_not_eq_0 [symmetric]
  by (simp add: to_int32_def bit_word_of_int_iff)

lemma preset_toggles_explicit:
  "preset_toggles r =
     [Some (bit r 7), Some (bit r 6), Some (bit r 5), Some (bit r 4),
      Some (bit r 3), Some (bit r 2), Some (bit r 1), Some (bit r 0)]"
proof -
  have b: "(signed_drop_bit i (to_int32 r) AND 1) = 1 \<longleftrightarrow> bit r i" if "i \<in> set [0..<8]" for i
    using that by (intro bit_preset) simp
  have "preset_toggles r =
     foldl (\<lambda>toggles i. toggles[7 - i := Some (bit r i)]) (replicate 8 (Some False)) [0..<8]"
    unfolding preset_toggles_def
    by (rule foldl_cong) (simp_all add: b del: upt_rec_numeral)
  then show ?thesis
    by (simp add: upt8 rep8)
qed

lemma sim_preset_toggles_explicit:
  "sim_preset_toggles r =
     [Some (bit r 7), Some (bit r 6), Some (bit r 5), Some (bit r 4),
      Some (bit r 3), Some (bit r 2), Some (bit r 1), Some (bit r 0)]"
proof -
  have b: "(to_int32 r AND push_bit i 1) \<noteq> 0 \<longleftrightarrow> bit r i" if "i \<in> set [0..<8]" for i
    using that by (intro bit_sim_preset) simp
  have "sim_preset_toggles r =
     foldl (\<lambda>toggles i. toggles[7 - i := Some (bit r i)]) (replicate 8 (Some False)) [0..<8]"
    unfolding sim_preset_toggles_def
    by (rule foldl_cong) (simp_all add: b del: upt_rec_numeral push_bit_of_1)
  then show ?thesis
    by (simp add: upt8 rep8)
qed

lemma less8_cases: "i < 8 \<Longrightarrow> i = 0 \<or> i = 1 \<or> i = 2 \<or> i = 3 \<or> i = 4 \<or> i = 5 \<or> i = 6 \<or> i = (7::nat)"
  by arith

lemma preset_toggles_bits:
  "length (preset_toggles r) = 8 \<and> (\<forall>i<8. preset_toggles r ! (7 - i) = Some (bit r i))"
proof (intro conjI allI impI)
  show "length (preset_toggles r) = 8" by (simp add: preset_toggles_explicit)
next
  fix i :: nat assume "i < 8"
  then show "preset_toggles r ! (7 - i) = Some (bit r i)"
    by (auto dest!: less8_cases simp add: preset_toggles_explicit)
qed

lemma sim_preset_toggles_bits:
  "length (sim_preset_toggles r) = 8 \<and> (\<forall>i<8. sim_preset_toggles r ! (7 - i) = Some (bit r i))"
proof (intro conjI allI impI)
  show "length (sim_preset_toggles r) = 8" by (simp add: sim_preset_toggles_explicit)
next
  fix i :: nat assume "i < 8"
  then show "sim_preset_toggles r ! (7 - i) = Some (bit r i)"
    by (auto dest!: less8_cases simp add: sim_preset_toggles_explicit)
qed

lemma initial_ruleToggles_explicit:
  "initial_ruleToggles =
     [Some False, Some True, Some True, Some True, Some False, Some True, Some True, Some False]"
  by (simp add: initial_ruleToggles_def DEFAULT_RULE_def upt8 rep8 to_int32_def)

lemma bit4_110: "\<not> bit (110::int) 4"
  by (simp add: bit_iff_odd_drop_bit drop_bit_eq_div)

text \<open>
  C2.  \<^verbatim>\<open>setPresetRule\<close> puts bit \<open>i\<close> of the rule number at \<open>table[7 - i]\<close> (the two lemmas
  above).  The initial \<^verbatim>\<open>ruleToggles\<close> of the store with the renderer switch do not: they are
  built from rule 110 with bit \<open>i\<close> at \<open>table[i]\<close>, so entry \<open>7 - 4\<close> is \<^verbatim>\<open>true\<close> although
  bit 4 of 110 is clear, and the table differs from the one \<^verbatim>\<open>setPresetRule(110)\<close> stores.
\<close>

theorem initial_ruleToggles_reversed:
  "initial_ruleToggles ! (7 - 4) = Some True \<and> \<not> bit DEFAULT_RULE 4 \<and>
   ruleToggles (setPresetRule DEFAULT_RULE demo_state) ! (7 - 4) = Some False \<and>
   initial_ruleToggles \<noteq> ruleToggles (setPresetRule DEFAULT_RULE demo_state)"
proof -
  have "preset_toggles DEFAULT_RULE ! (7 - 4) = Some False"
    by (simp add: preset_toggles_explicit DEFAULT_RULE_def bit4_110)
  moreover have "initial_ruleToggles ! (7 - 4) = Some True"
    by (simp add: initial_ruleToggles_explicit)
  moreover have "\<not> bit DEFAULT_RULE 4"
    by (simp add: DEFAULT_RULE_def bit4_110)
  ultimately show ?thesis
    by (auto simp: setPresetRule_def)
qed

subsection \<open>Viewport metrics\<close>

lemma js_floor_div_floor:
  "b \<noteq> 0 \<Longrightarrow> js_floor_div a b = JInt \<lfloor>real_of_int a / real_of_int b\<rfloor>"
  by (simp add: js_floor_div_def floor_divide_of_int_eq)



text \<open>The row count of \<^verbatim>\<open>useRenderStore\<close> leaves 100 pixels out and divides by the cell size alone.\<close>

lemma render_metrics_rows:
  "cSize \<noteq> 0 \<Longrightarrow>
   maxVisibleGenerations (render_calculateCanvasMetrics h w cSize cMargin) =
     JInt \<lfloor>real_of_int (h - 100) / real_of_int cSize\<rfloor>"
  by (simp add: render_calculateCanvasMetrics_def Let_def js_floor_div_floor)


subsection \<open>Viewport resets\<close>

lemma set_cells_metrics_fields:
  "previousGenerations (set_cells_metrics c m s) = previousGenerations s"
  "cells (set_cells_metrics c m s) = c"
  "maxCells (set_cells_metrics c m s) = maxCells m"
  by (simp_all add: set_cells_metrics_def)

lemma new_array_false_Inr:
  "new_array_false n = Inr xs \<Longrightarrow> n = JInt (int (length xs))"
  by (auto simp: new_array_false_def split: jsnum.splits if_splits)

lemma foldl_cond_update_length:
  "length (foldl (\<lambda>a i. if P i then a[g i := f i] else a) xs is) = length xs"
  by (induction "is" arbitrary: xs) simp_all

lemma recenter_length: "length (recenter k cs newCells) = length newCells"
  by (simp add: recenter_def Let_def foldl_cond_update_length)

lemma updateCanvasSize_Inr:
  assumes "updateCanvasSize h w s = Inr s'"
  shows "previousGenerations s' = previousGenerations s \<and> maxCells s' = JInt (int (length (cells s')))"
proof -
  let ?m = "calculateCanvasMetrics h w (cellSize s) (cellMargin s)"
  from assms obtain newCells where n: "new_array_false (maxCells ?m) = Inr newCells"
    and s': "s' = set_cells_metrics (recenter (jsnum_int (maxCells ?m)) (cells s) newCells) ?m s"
    by (auto simp: updateCanvasSize_def Let_def split: sum.splits)
  from n have "maxCells ?m = JInt (int (length newCells))"
    by (rule new_array_false_Inr)
  then show ?thesis
    by (simp add: s' set_cells_metrics_fields recenter_length)
qed

lemma setCellSize_Inr:
  assumes "setCellSize h w n s = Inr s'"
  shows "previousGenerations s' = previousGenerations s \<and> maxCells s' = JInt (int (length (cells s')))"
proof -
  let ?m = "calculateCanvasMetrics h w n (cellMargin s)"
  from assms obtain newCells where n: "new_array_false (maxCells ?m) = Inr newCells"
    and s': "s' = (set_cells_metrics (recenter (jsnum_int (maxCells ?m)) (cells s) newCells) ?m s)
                    \<lparr>cellSize := n\<rparr>"
    by (auto simp: setCellSize_def Let_def split: sum.splits)
  from n have "maxCells ?m = JInt (int (length newCells))"
    by (rule new_array_false_Inr)
  then show ?thesis
    by (simp add: s' set_cells_metrics_fields recenter_length)
qed

lemma setCellMargin_Inr:
  assumes "setCellMargin h w n s = Inr s'"
  shows "previousGenerations s' = previousGenerations s \<and> maxCells s' = JInt (int (length (cells s')))"
proof -
  let ?m = "calculateCanvasMetrics h w (cellSize s) n"
  from assms obtain newCells where n: "new_array_false (maxCells ?m) = Inr newCells"
    and s': "s' = (set_cells_metrics (recenter (jsnum_int (maxCells ?m)) (cells s) newCells) ?m s)
                    \<lparr>cellMargin := n\<rparr>"
    by (auto simp: setCellMargin_def Let_def split: sum.splits)
  from n have "maxCells ?m = JInt (int (length newCells))"
    by (rule new_array_false_Inr)
  then show ?thesis
    by (simp add: s' set_cells_metrics_fields recenter_length)
qed

text \<open>
  C9 (as amended).  When \<^verbatim>\<open>updateCanvasSize\<close>, \<^verbatim>\<open>setCellSize\<close> or \<^verbatim>\<open>setCellMargin\<close> returns, the
  cells are a new array of \<^verbatim>\<open>maxCells\<close> slots and \<^verbatim>\<open>previousGenerations\<close> is what it was before
  the call.
\<close>

theorem viewport_reset_keeps_history:
  "(updateCanvasSize h w s = Inr s' \<longrightarrow>
      previousGenerations s' = previousGenerations s \<and> maxCells s' = JInt (int (length (cells s')))) \<and>
   (setCellSize h w n s = Inr s' \<longrightarrow>
      previousGenerations s' = previousGenerations s \<and> maxCells s' = JInt (int (length (cells s')))) \<and>
   (setCellMargin h w n s = Inr s' \<longrightarrow>
      previousGenerations s' = previousGenerations s \<and> maxCells s' = JInt (int (length (cells s'))))"
  using updateCanvasSize_Inr setCellSize_Inr setCellMargin_Inr by blast

lemma updateCanvasSize_demo:
  "updateCanvasSize 8 316 demo_full =
     Inr (demo_full\<lparr>availableWidth := 16, maxCells := JInt 4, renderWidth := JInt 16,
            cells := [Some False, Some True, Some False, Some False]\<rparr>)"
  by code_simp

lemma setCellSize_demo:
  "setCellSize 8 316 2 demo_full =
     Inr (demo_full\<lparr>availableWidth := 16, maxCells := JInt 8, renderWidth := JInt 16,
            maxVisibleGenerations := JInt 4,
            cells := [Some False, Some False, Some False, Some True, Some False, Some False,
                      Some False, Some False],
            cellSize := 2\<rparr>)"
  by code_simp

lemma setCellMargin_demo:
  "setCellMargin 8 316 4 demo_full =
     Inr (demo_full\<lparr>availableWidth := 16, maxCells := JInt 2, renderWidth := JInt 16,
            maxVisibleGenerations := JInt 1, cells := [Some True, Some False],
            cellMargin := 4\<rparr>)"
  by code_simp

theorem viewport_reset_keeps_history_witness:
  "updateCanvasSize 8 316 demo_full =
     Inr (demo_full\<lparr>availableWidth := 16, maxCells := JInt 4, renderWidth := JInt 16,
            cells := [Some False, Some True, Some False, Some False]\<rparr>) \<and>
   previousGenerations (demo_full\<lparr>availableWidth := 16, maxCells := JInt 4, renderWidth := JInt 16,
            cells := [Some False, Some True, Some False, Some False]\<rparr>) = demo_history \<and>
   setCellSize 8 316 2 demo_full =
     Inr (demo_full\<lparr>availableWidth := 16, maxCells := JInt 8, renderWidth := JInt 16,
            maxVisibleGenerations := JInt 4,
            cells := [Some False, Some False, Some False, Some True, Some False, Some False,
                      Some False, Some False],
            cellSize := 2\<rparr>) \<and>
   previousGenerations (demo_full\<lparr>availableWidth := 16, maxCells := JInt 8, renderWidth := JInt 16,
            maxVisibleGenerations := JInt 4,
            cells := [Some False, Some False, Some False, Some True, Some False, Some False,
                      Some False, Some False],
            cellSize := 2\<rparr>) = demo_history \<and>
   setCellMargin 8 316 4 demo_full =
     Inr (demo_full\<lparr>availableWidth := 16, maxCells := JInt 2, renderWidth := JInt 16,
            maxVisibleGenerations := JInt 1, cells := [Some True, Some False],
            cellMargin := 4\<rparr>) \<and>
   previousGenerations (demo_full\<lparr>availableWidth := 16, maxCells := JInt 2, renderWidth := JInt 16,
            maxVisibleGenerations := JInt 1, cells := [Some True, Some False],
            cellMargin := 4\<rparr>) = demo_history"
  (is "_ = Inr ?A \<and> _ \<and> _ = Inr ?B \<and> _ \<and> _ = Inr ?C \<and> _")
proof -
  have h: "previousGenerations demo_full = demo_history"
    by (simp add: demo_full_def)
  have a: "previousGenerations ?A = previousGenerations demo_full"
    using viewport_reset_keeps_history [of 8 316 demo_full ?A 2] updateCanvasSize_demo by blast
  have b: "previousGenerations ?B = previousGenerations demo_full"
    using viewport_reset_keeps_history [of 8 316 demo_full ?B 2] setCellSize_demo by blast
  have c: "previousGenerations ?C = previousGenerations demo_full"
    using viewport_reset_keeps_history [of 8 316 demo_full ?C 4] setCellMargin_demo by blast
  show ?thesis
    using a b c updateCanvasSize_demo setCellSize_demo setCellMargin_demo
    by (simp only: h simp_thms)
qed

text \<open>
  C9 as stated fails: a resize that replaces the cells leaves the two rows of history in place.
\<close>

theorem viewport_reset_history_counterexample:
  "updateCanvasSize 8 316 demo_full =
     Inr (demo_full\<lparr>availableWidth := 16, maxCells := JInt 4, renderWidth := JInt 16,
            cells := [Some False, Some True, Some False, Some False]\<rparr>) \<and>
   cells (demo_full\<lparr>availableWidth := 16, maxCells := JInt 4, renderWidth := JInt 16,
            cells := [Some False, Some True, Some False, Some False]\<rparr>) \<noteq> cells demo_full \<and>
   previousGenerations (demo_full\<lparr>availableWidth := 16, maxCells := JInt 4,
            renderWidth := JInt 16,
            cells := [Some False, Some True, Some False, Some False]\<rparr>) \<noteq> []"
  using updateCanvasSize_demo
  by (simp add: demo_full_def demo_history_def demo_state_def)

subsection \<open>The history window\<close>

lemma step_history:
  "previousGenerations (step s) =
     (if js_ge (length (previousGenerations s)) (maxVisibleGenerations s)
      then tl (previousGenerations s) else previousGenerations s) @ [cells s]"
  by (simp add: step_def Let_def)

lemma incrementGeneration_history:
  "previousGenerations (incrementGeneration s) =
     (if js_gt (Suc (length (previousGenerations s))) (maxVisibleGenerations s)
      then tl (previousGenerations s @ [cells s]) else previousGenerations s @ [cells s])"
  by (simp add: incrementGeneration_def Let_def)

lemma apply_op_bound [simp]: "maxVisibleGenerations (apply_op a s) = maxVisibleGenerations s"
  by (cases a) (simp_all add: step_def incrementGeneration_def Let_def)

lemma apply_op_history:
  assumes "maxVisibleGenerations s = JInt M" "1 \<le> M" "length (previousGenerations s) \<le> nat M"
  shows "previousGenerations (apply_op a s) =
           drop (Suc (length (previousGenerations s)) - nat M) (previousGenerations s @ [cells s])"
proof (cases "length (previousGenerations s) = nat M")
  case True
  with assms have ne: "previousGenerations s \<noteq> []" by auto
  from True assms have ge: "js_ge (length (previousGenerations s)) (maxVisibleGenerations s)"
    and gt: "js_gt (Suc (length (previousGenerations s))) (maxVisibleGenerations s)"
    by (simp_all add: js_ge_def js_gt_def)
  from True have d: "Suc (length (previousGenerations s)) - nat M = 1" by simp
  from ne obtain x xs where pg: "previousGenerations s = x # xs"
    by (cases "previousGenerations s") auto
  show ?thesis
    unfolding d using ge gt
    by (cases a) (simp_all add: step_history incrementGeneration_history pg)
next
  case False
  with assms have lt: "length (previousGenerations s) < nat M" by simp
  with assms have ge: "\<not> js_ge (length (previousGenerations s)) (maxVisibleGenerations s)"
    and gt: "\<not> js_gt (Suc (length (previousGenerations s))) (maxVisibleGenerations s)"
    by (auto simp: js_ge_def js_gt_def)
  from lt have d: "Suc (length (previousGenerations s)) - nat M = 0" by simp
  show ?thesis
    unfolding d using ge gt
    by (cases a) (simp_all add: step_history incrementGeneration_history)
qed

lemma length_pushed [simp]: "length (pushed ops s) = length ops"
  by (induction ops arbitrary: s) simp_all

lemma run_ops_history:
  assumes "maxVisibleGenerations s = JInt M" "1 \<le> M" "length (previousGenerations s) \<le> nat M"
  shows "previousGenerations (run_ops ops s) =
           drop (length (previousGenerations s) + length ops - nat M)
             (previousGenerations s @ pushed ops s)"
  using assms
proof (induction ops arbitrary: s)
  case Nil
  then show ?case by simp
next
  case (Cons a ops)
  let ?pg = "previousGenerations s"
  let ?s' = "apply_op a s"
  let ?d = "Suc (length ?pg) - nat M"
  have h: "previousGenerations ?s' = drop ?d (?pg @ [cells s])"
    using Cons.prems by (rule apply_op_history)
  have len: "length (previousGenerations ?s') = Suc (length ?pg) - ?d"
    by (simp add: h)
  have le: "length (previousGenerations ?s') \<le> nat M"
    using Cons.prems by (simp add: len)
  have m: "maxVisibleGenerations ?s' = JInt M"
    using Cons.prems by simp
  have "previousGenerations (run_ops (a # ops) s) = previousGenerations (run_ops ops ?s')"
    by simp
  also have "\<dots> = drop (length (previousGenerations ?s') + length ops - nat M)
                      (previousGenerations ?s' @ pushed ops ?s')"
    using m Cons.prems(2) le by (rule Cons.IH)
  also have "previousGenerations ?s' @ pushed ops ?s' = drop ?d (?pg @ cells s # pushed ops ?s')"
  proof -
    have "drop ?d ((?pg @ [cells s]) @ pushed ops ?s') =
            drop ?d (?pg @ [cells s]) @ drop (?d - length (?pg @ [cells s])) (pushed ops ?s')"
      by (rule drop_append)
    moreover have "?d - length (?pg @ [cells s]) = 0"
      by simp
    ultimately show ?thesis
      by (simp add: h)
  qed
  also have "drop (length (previousGenerations ?s') + length ops - nat M) (drop ?d (?pg @ cells s # pushed ops ?s'))
             = drop (length ?pg + length (a # ops) - nat M) (?pg @ pushed (a # ops) s)"
  proof -
    have idx: "length (previousGenerations ?s') + length ops - nat M + ?d
                 = length ?pg + length (a # ops) - nat M"
      using Cons.prems(3) unfolding len by simp
    have X: "?pg @ pushed (a # ops) s = ?pg @ cells s # pushed ops ?s'"
      by simp
    show ?thesis
      by (simp only: drop_drop idx X)
  qed
  finally show ?case .
qed


lemma sim_step_history:
  "sim_previousGenerations (sim_step t) = sim_previousGenerations t @ [sim_cells t]"
  by (simp add: sim_step_def Let_def)

text \<open>
  C3 (as amended).  In \<^verbatim>\<open>useStore\<close>, for an integer bound \<open>M \<ge> 1\<close> and an empty history at the
  start, after any sequence of \<^verbatim>\<open>step\<close> and \<^verbatim>\<open>incrementGeneration\<close> calls the history has at most
  \<open>M\<close> entries and is the list of pushed generations without all but its last \<open>M\<close>, in push
  order.  The \<^verbatim>\<open>step\<close> of \<^verbatim>\<open>useSimulationStore\<close> only appends.
\<close>

theorem history_window_holds_last_M:
  assumes "maxVisibleGenerations s = JInt M" and "1 \<le> M" and "previousGenerations s = []"
  shows "length (previousGenerations (run_ops ops s)) \<le> nat M \<and>
         previousGenerations (run_ops ops s) = drop (length ops - nat M) (pushed ops s) \<and>
         sim_previousGenerations (sim_step t) = sim_previousGenerations t @ [sim_cells t]"
proof -
  have "previousGenerations (run_ops ops s) =
          drop (length (previousGenerations s) + length ops - nat M)
            (previousGenerations s @ pushed ops s)"
    using assms by (intro run_ops_history) simp_all
  then have e: "previousGenerations (run_ops ops s) = drop (length ops - nat M) (pushed ops s)"
    by (simp add: assms(3))
  have "length (drop (length ops - nat M) (pushed ops s)) \<le> nat M"
    by simp
  with e show ?thesis by (simp add: sim_step_history)
qed

lemma demo_pushed:
  "pushed [OpStep, OpStep, OpIncrementGeneration] demo_state =
     [[Some False, Some True, Some False], [Some True, Some True, Some True],
      [Some False, Some False, Some False]]"
  by code_simp

theorem history_window_holds_last_M_witness:
  "maxVisibleGenerations demo_state = JInt 2 \<and> (1::int) \<le> 2 \<and> previousGenerations demo_state = [] \<and>
   previousGenerations (run_ops [OpStep, OpStep, OpIncrementGeneration] demo_state) =
     [[Some True, Some True, Some True], [Some False, Some False, Some False]]"
proof -
  have m: "maxVisibleGenerations demo_state = JInt 2"
    by (simp add: demo_state_def)
  have e: "previousGenerations demo_state = []"
    by (simp add: demo_state_def)
  have one: "(1::int) \<le> 2"
    by simp
  have "previousGenerations (run_ops [OpStep, OpStep, OpIncrementGeneration] demo_state) =
          drop (length [OpStep, OpStep, OpIncrementGeneration] - nat 2)
            (pushed [OpStep, OpStep, OpIncrementGeneration] demo_state)"
    using history_window_holds_last_M [OF m one e] by blast
  then have "previousGenerations (run_ops [OpStep, OpStep, OpIncrementGeneration] demo_state) =
          [[Some True, Some True, Some True], [Some False, Some False, Some False]]"
    by (simp only: demo_pushed) simp
  with m e show ?thesis by simp
qed

lemma demo_step_bound0:
  "previousGenerations (step (demo_state\<lparr>maxVisibleGenerations := JInt 0\<rparr>)) =
     [[Some False, Some True, Some False]]"
  by code_simp

lemma demo_render_rows:
  "maxVisibleGenerations (render_calculateCanvasMetrics 108 312 4 0) = JInt 2"
  by code_simp

text \<open>
  C3 as stated fails twice.  With the bound 0, one \<^verbatim>\<open>step\<close> of \<^verbatim>\<open>useStore\<close> from an empty history
  leaves one entry.  In the split stores, where the viewport of \<^verbatim>\<open>useRenderStore\<close> has room for
  two rows, three steps of \<^verbatim>\<open>useSimulationStore\<close> leave three entries.
\<close>

theorem history_window_counterexample:
  "previousGenerations (demo_state\<lparr>maxVisibleGenerations := JInt 0\<rparr>) = [] \<and>
   length (previousGenerations (step (demo_state\<lparr>maxVisibleGenerations := JInt 0\<rparr>))) = 1 \<and>
   sim_previousGenerations sim_demo = [] \<and>
   maxVisibleGenerations (render_calculateCanvasMetrics 108 312 4 0) = JInt 2 \<and>
   length (sim_previousGenerations (sim_step (sim_step (sim_step sim_demo)))) = 3"
  by (simp add: demo_step_bound0 demo_render_rows sim_step_history)
    (simp add: demo_state_def sim_demo_def)

subsection \<open>No length checks in \<^verbatim>\<open>step\<close>\<close>

lemma generation_step: "generation (step s) = generation s + 1"
  by (simp add: step_def Let_def)

lemma sim_generation_step: "sim_generation (sim_step u) = sim_generation u + 1"
  by (simp add: sim_step_def Let_def)

text \<open>
  C8 (as amended).  \<^verbatim>\<open>step\<close> checks neither the length of the rule table nor the lengths of the
  generations: every call returns, with as many cells as before and the generation counter
  advanced, and a cell whose table index \<open>7 - idx\<close> lies outside the table becomes \<^verbatim>\<open>undefined\<close>.
  The \<^verbatim>\<open>step\<close> of \<^verbatim>\<open>useSimulationStore\<close> runs the same loop, also without a check.
\<close>

theorem step_returns_unchecked:
  "step_result s = Inr (step s) \<and>
   length (cells (step s)) = length (cells s) \<and>
   generation (step s) = generation s + 1 \<and>
   (\<forall>i < length (cells s).
      cells (step s) ! i = arr_get (ruleToggles s) (7 - step_idx (cells s) i) \<and>
      (int (length (ruleToggles s)) \<le> 7 - step_idx (cells s) i \<longrightarrow> cells (step s) ! i = None)) \<and>
   length (sim_cells (sim_step u)) = length (sim_cells u) \<and>
   sim_generation (sim_step u) = sim_generation u + 1 \<and>
   (\<forall>i < length (sim_cells u).
      sim_cells (sim_step u) ! i = arr_get (sim_ruleToggles u) (7 - step_idx (sim_cells u) i))"
  by (simp add: step_result_def cells_step sim_cells_step step_nextCells_length step_nextCells_nth
      generation_step sim_generation_step arr_get_def)

lemma demo_step_unchecked:
  "step demo_unchecked =
     demo_unchecked\<lparr>cells := [None, None, None],
       previousGenerations := [[Some True], [Some False, Some True, Some False]],
       generation := 1\<rparr>"
  by code_simp

lemma demo_unchecked_idx: "step_idx (cells demo_unchecked) 0 = 1"
  by code_simp

theorem step_returns_unchecked_witness:
  "(0::nat) < length (cells demo_unchecked) \<and>
   int (length (ruleToggles demo_unchecked)) \<le> 7 - step_idx (cells demo_unchecked) 0 \<and>
   cells (step demo_unchecked) ! 0 = None"
proof -
  have l: "(0::nat) < length (cells demo_unchecked)"
    by (simp add: demo_unchecked_def demo_state_def)
  have o: "int (length (ruleToggles demo_unchecked)) \<le> 7 - step_idx (cells demo_unchecked) 0"
    by (simp add: demo_unchecked_idx) (simp add: demo_unchecked_def)
  from step_returns_unchecked [of demo_unchecked] l o
  have "cells (step demo_unchecked) ! 0 = None"
    by blast
  with l o show ?thesis by blast
qed

text \<open>
  C8 as stated fails: with a one-entry rule table and a history row of another length, the call
  returns a state whose cells are all \<^verbatim>\<open>undefined\<close>.
\<close>

theorem step_unchecked_counterexample:
  "length (ruleToggles demo_unchecked) \<noteq> 8 \<and>
   length (hd (previousGenerations demo_unchecked)) \<noteq> length (cells demo_unchecked) \<and>
   step_result demo_unchecked =
     Inr (demo_unchecked\<lparr>cells := [None, None, None],
            previousGenerations := [[Some True], [Some False, Some True, Some False]],
            generation := 1\<rparr>)"
  by (simp add: step_result_def demo_step_unchecked) (simp add: demo_unchecked_def demo_state_def)

section \<open>Properties of the renderer factory\<close>

lemma isWebGL2Supported_flags [simp]:
  "gpu_constructor_throws (snd (isWebGL2Supported env)) = gpu_constructor_throws env"
  "gpu_initialize_throws (snd (isWebGL2Supported env)) = gpu_initialize_throws env"
  "cpu_initialize_throws (snd (isWebGL2Supported env)) = cpu_initialize_throws env"
  by (simp_all add: isWebGL2Supported_def split: option.splits probe_outcome.splits)

lemma isWebGL2Supported_cached:
  "webGLSupportCache env = Some b \<Longrightarrow> isWebGL2Supported env = (b, env)"
  by (simp add: isWebGL2Supported_def)

lemma isWebGL2Supported_caches:
  "webGLSupportCache (snd (isWebGL2Supported env)) = Some (fst (isWebGL2Supported env))"
  by (simp add: isWebGL2Supported_def split: option.splits probe_outcome.splits)

lemma createRenderer_returns: "\<exists>b. returned (createRenderer p env) = Inr b"
  by (simp add: createRenderer_def Let_def split: prod.splits)

lemma createRenderer_gpu_only_if:
  "GPUBackend \<in> set (constructed (createRenderer p env)) \<Longrightarrow>
     wants_gpu p \<and> fst (isWebGL2Supported env)"
  by (auto simp: createRenderer_def Let_def split: prod.splits if_splits)

lemma createRenderer_canvas_gpu_only_if:
  "GPUBackend \<in> set (constructed (createRenderer_canvas p c env)) \<Longrightarrow>
     wants_gpu p \<and> fst (isWebGL2Supported env)"
  by (auto simp: createRenderer_canvas_def canvas2d_fallback_def Let_def
      split: prod.splits if_splits)

lemma createRenderer_canvas_returns:
  "\<not> (c \<and> cpu_initialize_throws env) \<Longrightarrow> \<exists>b. returned (createRenderer_canvas p c env) = Inr b"
  apply (cases "isWebGL2Supported env")
  using isWebGL2Supported_flags(3) [of env]
  apply (auto simp: createRenderer_canvas_def canvas2d_fallback_def Let_def
      split: prod.splits if_splits)
  done

lemma createRenderer_canvas_fallback:
  assumes "wants_gpu p" "fst (isWebGL2Supported env)"
    "gpu_constructor_throws env \<or> (c \<and> gpu_initialize_throws env)"
  shows "constructed (createRenderer_canvas p c env) = [GPUBackend, CPUBackend] \<and>
         returned (createRenderer_canvas p c env) =
           (if c \<and> cpu_initialize_throws env then Inl (Error ''Failed to get 2D context'')
            else Inr CPUBackend)"
  using assms isWebGL2Supported_flags [of env]
  by (cases "isWebGL2Supported env")
     (auto simp: createRenderer_canvas_def canvas2d_fallback_def Let_def)

lemma createRenderer_fallback:
  assumes "wants_gpu p" "fst (isWebGL2Supported env)" "gpu_constructor_throws env"
  shows "constructed (createRenderer p env) = [GPUBackend, CPUBackend] \<and>
         returned (createRenderer p env) = Inr CPUBackend"
  using assms isWebGL2Supported_flags [of env]
  by (cases "isWebGL2Supported env") (auto simp: createRenderer_def Let_def)

lemma createRenderer_canvas_gpu:
  assumes "wants_gpu p" "fst (isWebGL2Supported env)"
    "\<not> gpu_constructor_throws env" "\<not> (c \<and> gpu_initialize_throws env)"
  shows "constructed (createRenderer_canvas p c env) = [GPUBackend] \<and>
         returned (createRenderer_canvas p c env) = Inr GPUBackend"
  using assms isWebGL2Supported_flags [of env]
  by (cases "isWebGL2Supported env")
     (auto simp: createRenderer_canvas_def canvas2d_fallback_def Let_def)

text \<open>
  C6 (as amended).  Both factories construct the GPU renderer exactly when the GPU backend is
  preferred or unspecified and WebGL2 is supported, and return it unless its construction or (with
  a canvas) its initialisation throws; then they construct \<^verbatim>\<open>Canvas2DRenderer\<close> instead, as they do
  when the GPU renderer is not tried.  No exception of the GPU renderer reaches the caller.  The
  factory without a canvas argument always returns a renderer.  In the factory with a canvas
  argument, on every path that ends with \<^verbatim>\<open>Canvas2DRenderer\<close>, an exception of
  \<^verbatim>\<open>Canvas2DRenderer.initialize(canvas)\<close> reaches the caller, and no other exception does.
\<close>

theorem createRenderer_fallback_boundary:
  "returned (createRenderer p env) =
     (if wants_gpu p \<and> fst (isWebGL2Supported env) \<and> \<not> gpu_constructor_throws env
      then Inr GPUBackend else Inr CPUBackend) \<and>
   constructed (createRenderer p env) =
     (if wants_gpu p \<and> fst (isWebGL2Supported env)
      then (if gpu_constructor_throws env then [GPUBackend, CPUBackend] else [GPUBackend])
      else [CPUBackend]) \<and>
   returned (createRenderer_canvas p c env) =
     (if wants_gpu p \<and> fst (isWebGL2Supported env) \<and>
         \<not> gpu_constructor_throws env \<and> \<not> (c \<and> gpu_initialize_throws env)
      then Inr GPUBackend
      else if c \<and> cpu_initialize_throws env then Inl (Error ''Failed to get 2D context'')
      else Inr CPUBackend) \<and>
   constructed (createRenderer_canvas p c env) =
     (if wants_gpu p \<and> fst (isWebGL2Supported env)
      then (if gpu_constructor_throws env \<or> (c \<and> gpu_initialize_throws env)
            then [GPUBackend, CPUBackend] else [GPUBackend])
      else [CPUBackend]) \<and>
   (GPUBackend \<in> set (constructed (createRenderer p env)) \<longrightarrow>
      wants_gpu p \<and> fst (isWebGL2Supported env)) \<and>
   (GPUBackend \<in> set (constructed (createRenderer_canvas p c env)) \<longrightarrow>
      wants_gpu p \<and> fst (isWebGL2Supported env)) \<and>
   (\<not> (c \<and> cpu_initialize_throws env) \<longrightarrow>
      (\<exists>b. returned (createRenderer_canvas p c env) = Inr b))"
proof -
  have 1: "returned (createRenderer p env) =
     (if wants_gpu p \<and> fst (isWebGL2Supported env) \<and> \<not> gpu_constructor_throws env
      then Inr GPUBackend else Inr CPUBackend)"
    using isWebGL2Supported_flags [of env]
    by (cases "isWebGL2Supported env") (auto simp: createRenderer_def Let_def)
  have 2: "constructed (createRenderer p env) =
     (if wants_gpu p \<and> fst (isWebGL2Supported env)
      then (if gpu_constructor_throws env then [GPUBackend, CPUBackend] else [GPUBackend])
      else [CPUBackend])"
    using isWebGL2Supported_flags [of env]
    by (cases "isWebGL2Supported env") (auto simp: createRenderer_def Let_def)
  have 3: "returned (createRenderer_canvas p c env) =
     (if wants_gpu p \<and> fst (isWebGL2Supported env) \<and>
         \<not> gpu_constructor_throws env \<and> \<not> (c \<and> gpu_initialize_throws env)
      then Inr GPUBackend
      else if c \<and> cpu_initialize_throws env then Inl (Error ''Failed to get 2D context'')
      else Inr CPUBackend)"
    using isWebGL2Supported_flags [of env]
    by (cases "isWebGL2Supported env")
       (auto simp: createRenderer_canvas_def canvas2d_fallback_def Let_def)
  have 4: "constructed (createRenderer_canvas p c env) =
     (if wants_gpu p \<and> fst (isWebGL2Supported env)
      then (if gpu_constructor_throws env \<or> (c \<and> gpu_initialize_throws env)
            then [GPUBackend, CPUBackend] else [GPUBackend])
      else [CPUBackend])"
    using isWebGL2Supported_flags [of env]
    by (cases "isWebGL2Supported env")
       (auto simp: createRenderer_canvas_def canvas2d_fallback_def Let_def)
  have 5: "GPUBackend \<in> set (constructed (createRenderer p env)) \<longrightarrow>
      wants_gpu p \<and> fst (isWebGL2Supported env)"
    using createRenderer_gpu_only_if [of p env] by blast
  have 6: "GPUBackend \<in> set (constructed (createRenderer_canvas p c env)) \<longrightarrow>
      wants_gpu p \<and> fst (isWebGL2Supported env)"
    using createRenderer_canvas_gpu_only_if [of p c env] by blast
  have 7: "\<not> (c \<and> cpu_initialize_throws env) \<longrightarrow>
      (\<exists>b. returned (createRenderer_canvas p c env) = Inr b)"
    using createRenderer_canvas_returns [of c env p] by blast
  show ?thesis
    by (intro conjI) (rule 1 2 3 4 5 6 7)+
qed

lemma demo_env_supported: "isWebGL2Supported demo_env = (True, demo_env)"
  by (simp add: isWebGL2Supported_def demo_env_def)

lemma demo_env_supported2:
  "isWebGL2Supported (demo_env\<lparr>cpu_initialize_throws := False\<rparr>) =
     (True, demo_env\<lparr>cpu_initialize_throws := False\<rparr>)"
  by (simp add: isWebGL2Supported_def demo_env_def)

text \<open>
  Two runs of the factory with a canvas.  In the first the GPU backend is tried, its
  \<^verbatim>\<open>initialize(canvas)\<close> throws (its constructor does not) and \<^verbatim>\<open>Canvas2DRenderer\<close> is returned.
  In the second \<^verbatim>\<open>canvas2d\<close> is preferred, the GPU backend is not tried, and the exception of
  \<^verbatim>\<open>Canvas2DRenderer.initialize(canvas)\<close> reaches the caller.
\<close>

theorem createRenderer_fallback_boundary_witness:
  "wants_gpu None \<and>
   fst (isWebGL2Supported (demo_env\<lparr>cpu_initialize_throws := False\<rparr>)) \<and>
   \<not> gpu_constructor_throws (demo_env\<lparr>cpu_initialize_throws := False\<rparr>) \<and>
   gpu_initialize_throws (demo_env\<lparr>cpu_initialize_throws := False\<rparr>) \<and>
   \<not> (True \<and> cpu_initialize_throws (demo_env\<lparr>cpu_initialize_throws := False\<rparr>)) \<and>
   constructed (createRenderer_canvas None True (demo_env\<lparr>cpu_initialize_throws := False\<rparr>))
     = [GPUBackend, CPUBackend] \<and>
   GPUBackend \<in> set (constructed
     (createRenderer_canvas None True (demo_env\<lparr>cpu_initialize_throws := False\<rparr>))) \<and>
   returned (createRenderer_canvas None True (demo_env\<lparr>cpu_initialize_throws := False\<rparr>))
     = Inr CPUBackend \<and>
   constructed (createRenderer None (demo_env\<lparr>cpu_initialize_throws := False\<rparr>)) = [GPUBackend] \<and>
   GPUBackend \<in> set (constructed (createRenderer None (demo_env\<lparr>cpu_initialize_throws := False\<rparr>))) \<and>
   returned (createRenderer None (demo_env\<lparr>cpu_initialize_throws := False\<rparr>)) = Inr GPUBackend \<and>
   \<not> wants_gpu (Some Canvas2D) \<and>
   cpu_initialize_throws demo_env \<and>
   constructed (createRenderer_canvas (Some Canvas2D) True demo_env) = [CPUBackend] \<and>
   returned (createRenderer_canvas (Some Canvas2D) True demo_env)
     = Inl (Error ''Failed to get 2D context'')"
  (is "_ \<and> fst (isWebGL2Supported ?e) \<and> _")
proof -
  have w: "wants_gpu None" and nw: "\<not> wants_gpu (Some Canvas2D)"
    by (simp_all add: wants_gpu_def)
  have s: "fst (isWebGL2Supported ?e)"
    by (simp add: demo_env_supported2)
  have f: "\<not> gpu_constructor_throws ?e" "gpu_initialize_throws ?e"
    "\<not> (True \<and> cpu_initialize_throws ?e)" "cpu_initialize_throws demo_env"
    by (simp_all add: demo_env_def)
  note a = createRenderer_fallback_boundary [of None ?e True]
  note b = createRenderer_fallback_boundary [of "Some Canvas2D" demo_env True]
  from a w s f have a1:
    "constructed (createRenderer_canvas None True ?e) = [GPUBackend, CPUBackend]"
    "returned (createRenderer_canvas None True ?e) = Inr CPUBackend"
    "constructed (createRenderer None ?e) = [GPUBackend]"
    "returned (createRenderer None ?e) = Inr GPUBackend"
    by simp_all
  from b nw f have b1:
    "constructed (createRenderer_canvas (Some Canvas2D) True demo_env) = [CPUBackend]"
    "returned (createRenderer_canvas (Some Canvas2D) True demo_env)
       = Inl (Error ''Failed to get 2D context'')"
    by simp_all
  show ?thesis
    using w nw s f by (simp add: a1 b1)
qed

text \<open>
  C6 as stated fails for the factory with a canvas argument: when the GPU renderer's
  \<^verbatim>\<open>initialize\<close> throws and then \<^verbatim>\<open>Canvas2DRenderer.initialize\<close> throws on the same canvas, that
  second exception reaches the caller.
\<close>

theorem createRenderer_canvas_counterexample:
  "webGLSupportCache demo_env = Some True \<and>
   returned (createRenderer_canvas None True demo_env) = Inl (Error ''Failed to get 2D context'')"
  by (simp add: createRenderer_canvas_def wants_gpu_def demo_env_supported canvas2d_fallback_def)
    (simp add: demo_env_def)

section \<open>Properties of the renderers\<close>

subsection \<open>The two backends show the same cells\<close>

declare ceil_log2.simps [simp del]



lemma write_row_length [simp]: "length (write_row tw y x cs d) = length d"
  by (induction cs arbitrary: x d) simp_all

lemma write_rows_length [simp]: "length (write_rows tw y gs d) = length d"
  by (induction gs arbitrary: y d) simp_all










lemma demo_canvas2d_cells: "canvas2d_cells demo_cellstate demo_options = [(1, 0), (1, 1), (2, 1)]"
  by code_simp









subsection \<open>Ping-pong buffering\<close>







lemma gl_ops_attachments [simp]:
  "gl_attachments (gl_useProgram p g) = gl_attachments g"
  "gl_attachments (gl_bindTexture t g) = gl_attachments g"
  "gl_attachments (gl_bindFramebuffer f g) = gl_attachments g"
  "gl_attachments (gl_clear g) = gl_attachments g"
  "gl_attachments (gl_drawArrays g) = gl_attachments g"
  by (simp_all add: gl_useProgram_def gl_bindTexture_def gl_bindFramebuffer_def gl_clear_def
      gl_drawArrays_def)



lemma ping_pong_inv_rule [simp]:
  "ping_pong_inv (r\<lparr>rendererRule := x\<rparr>) = ping_pong_inv r"
  by (simp add: ping_pong_inv_def)




































text \<open>
  A frame of \<^verbatim>\<open>WebGLRenderer\<close> whose \<^verbatim>\<open>updateTexture\<close> throws: with three cells and
  \<^verbatim>\<open>maxVisibleGenerations = -2\<close> the array length is \<open>3 * (-1) * 4\<close>.  The texture size has been
  assigned by then; nothing is drawn, and \<^verbatim>\<open>currentTexture\<close> and \<^verbatim>\<open>generation\<close> stay.
\<close>

lemma webgl_render_range_error:
  "fst (webgl_render
      (demo_cellstate\<lparr>st_viewport := demo_viewport\<lparr>vp_maxVisibleGenerations := - 2\<rparr>\<rparr>)
      demo_webgl_renderer) = Some RangeError \<and>
   textureHeight (snd (webgl_render
      (demo_cellstate\<lparr>st_viewport := demo_viewport\<lparr>vp_maxVisibleGenerations := - 2\<rparr>\<rparr>)
      demo_webgl_renderer)) = JInt (- 1) \<and>
   rendererGeneration (snd (webgl_render
      (demo_cellstate\<lparr>st_viewport := demo_viewport\<lparr>vp_maxVisibleGenerations := - 2\<rparr>\<rparr>)
      demo_webgl_renderer)) = 0 \<and>
   map_option gl_writes (gl (snd (webgl_render
      (demo_cellstate\<lparr>st_viewport := demo_viewport\<lparr>vp_maxVisibleGenerations := - 2\<rparr>\<rparr>)
      demo_webgl_renderer))) = Some []"
  by code_simp

text \<open>
  In a disposed \<^verbatim>\<open>WebGLComputeRenderer\<close> the compute pass is still issued, on a program and
  textures that have been deleted.  What the context does with deleted objects is not part of
  the model, so the property above is not stated for these passes.
\<close>

lemma compute_pass_after_dispose:
  "map_option gl_deleted (gl (compute_dispose demo_compute_renderer)) =
     Some [9, 8, 7, 6, 5, 4, 3, 2, 1, 0] \<and>
   map_option gl_writes (gl (compute_computeNextState (compute_dispose demo_compute_renderer))) =
     Some [Clear (TextureTarget 7), DrawCall (Some 4) (Some 6) (TextureTarget 7)]"
  by code_simp

subsection \<open>Rendering outside the initialised state\<close>

lemma canvas2d_render_guard:
  "\<not> c2d_ctx r \<or> \<not> c2d_canvas r \<or> c2d_options r = None \<Longrightarrow> canvas2d_render st r = (r, [])"
  by (auto simp: canvas2d_render_def split: option.splits)

lemma canvas2d_render_new: "canvas2d_render st new_Canvas2DRenderer = (new_Canvas2DRenderer, [])"
  by (simp add: canvas2d_render_guard new_Canvas2DRenderer_def)

lemma canvas2d_render_failed_initialize:
  "canvas2d_initialize False dpr r = (e, r') \<Longrightarrow> canvas2d_render st r' = (r', [])"
  by (auto simp: canvas2d_initialize_def Let_def intro!: canvas2d_render_guard)

lemma canvas2d_render_disposed:
  "canvas2d_render st (canvas2d_dispose r) = (canvas2d_dispose r, [])"
  by (simp add: canvas2d_render_guard canvas2d_dispose_def)

lemma webgl_render_new: "webgl_render st new_WebGLRenderer = (None, new_WebGLRenderer)"
  by (simp add: webgl_render_def new_WebGLRenderer_def)

lemma webgl_render_disposed: "webgl_render st (webgl_dispose r) = (None, webgl_dispose r)"
  by (cases "gl r") (simp_all add: webgl_render_def webgl_dispose_def)

lemma compute_render_new: "compute_render st new_WebGLComputeRenderer = new_WebGLComputeRenderer"
  by (simp add: compute_render_def new_WebGLComputeRenderer_def)

lemma compute_dispose_keeps_fields:
  "gl r \<noteq> None \<Longrightarrow> gl (compute_dispose r) \<noteq> None"
  "displayProgram (compute_dispose r) = displayProgram r"
  "computeProgram (compute_dispose r) = computeProgram r"
  by (auto simp: compute_dispose_def compute_cleanup_def split: option.splits)

lemma demo_disposed_render:
  "compute_render demo_cellstate (compute_dispose demo_compute_renderer) =
     (compute_dispose demo_compute_renderer)
       \<lparr>gl := Some \<lparr>gl_next = 10, gl_program = Some 4, gl_texture = Some 6,
                     gl_framebuffer = Some 9, gl_attachments = [(9, Some 7), (8, Some 6)],
                     gl_deleted = [9, 8, 7, 6, 5, 4, 3, 2, 1, 0],
                     gl_writes = [Clear Screen, DrawCall (Some 3) (Some 6) Screen,
                                  Clear (TextureTarget 7),
                                  DrawCall (Some 4) (Some 6) (TextureTarget 7)],
                     gl_canvas_width = 12, gl_canvas_height = 12\<rparr>,
        currentTexture := 1, textureWidth := JInt 4, textureHeight := JInt 4,
        rendererGeneration := 1, rendererRule := 30\<rparr>"
  by code_simp

lemma demo_disposed_fields:
  "currentTexture (compute_dispose demo_compute_renderer) = 0 \<and>
   textureWidth (compute_dispose demo_compute_renderer) = JInt 1 \<and>
   rendererGeneration (compute_dispose demo_compute_renderer) = 0 \<and>
   rendererRule (compute_dispose demo_compute_renderer) = 0"
  by code_simp

text \<open>
  C10.  \<^verbatim>\<open>Canvas2DRenderer\<close> and \<^verbatim>\<open>WebGLRenderer\<close> return from \<^verbatim>\<open>render\<close> unchanged before
  \<^verbatim>\<open>initialize\<close> and after \<^verbatim>\<open>dispose\<close>, and so does a new \<^verbatim>\<open>WebGLComputeRenderer\<close> (the lemmas
  above).  A \<^verbatim>\<open>WebGLComputeRenderer\<close> that was initialised and then disposed does not: its
  \<^verbatim>\<open>dispose\<close> resets no field, so \<^verbatim>\<open>render\<close> passes its guard, runs both passes on the deleted
  objects and changes \<^verbatim>\<open>currentTexture\<close>, the texture size, \<^verbatim>\<open>generation\<close> and \<^verbatim>\<open>rule\<close>.
\<close>

theorem compute_render_after_dispose_changes_state:
  "currentTexture (compute_dispose demo_compute_renderer) = 0 \<and>
   currentTexture (compute_render demo_cellstate (compute_dispose demo_compute_renderer)) = 1 \<and>
   rendererGeneration (compute_dispose demo_compute_renderer) = 0 \<and>
   rendererGeneration (compute_render demo_cellstate (compute_dispose demo_compute_renderer)) = 1 \<and>
   textureWidth (compute_dispose demo_compute_renderer) = JInt 1 \<and>
   textureWidth (compute_render demo_cellstate (compute_dispose demo_compute_renderer)) = JInt 4 \<and>
   compute_render demo_cellstate (compute_dispose demo_compute_renderer)
     \<noteq> compute_dispose demo_compute_renderer \<and>
   webgl_render demo_cellstate (webgl_dispose demo_webgl_renderer) =
     (None, webgl_dispose demo_webgl_renderer)"
proof -
  have "currentTexture (compute_render demo_cellstate (compute_dispose demo_compute_renderer)) = 1"
    "rendererGeneration (compute_render demo_cellstate (compute_dispose demo_compute_renderer)) = 1"
    "textureWidth (compute_render demo_cellstate (compute_dispose demo_compute_renderer)) = JInt 4"
    by (simp_all add: demo_disposed_render)
  moreover from this(1) have "compute_render demo_cellstate (compute_dispose demo_compute_renderer)
     \<noteq> compute_dispose demo_compute_renderer"
    using demo_disposed_fields by auto
  ultimately show ?thesis
    using demo_disposed_fields by (simp add: webgl_render_disposed)
qed

text \<open>
  The same happens in both GPU renderers after an \<^verbatim>\<open>initialize\<close> that failed when linking the
  compute program: the display program is already assigned, so \<^verbatim>\<open>render\<close> passes its guard.
\<close>

lemma compute_render_after_failed_link:
  "fst (compute_initialize (Some (new_context 12 12)) (all_shaders_ok\<lparr>compute_links := False\<rparr>)
          new_WebGLComputeRenderer) = Some (Error ''Program link error'') \<and>
   rendererGeneration (snd (compute_initialize (Some (new_context 12 12))
          (all_shaders_ok\<lparr>compute_links := False\<rparr>) new_WebGLComputeRenderer)) = 0 \<and>
   rendererGeneration (compute_render demo_cellstate
      (snd (compute_initialize (Some (new_context 12 12))
          (all_shaders_ok\<lparr>compute_links := False\<rparr>) new_WebGLComputeRenderer))) = 1 \<and>
   rendererGeneration (snd (webgl_render demo_cellstate
      (snd (webgl_initialize (Some (new_context 12 12))
          (all_shaders_ok\<lparr>compute_links := False\<rparr>) new_WebGLRenderer)))) = 1"
  by code_simp

end
